theory Spec2Isabelle
  imports Main "HOL-Library.Word"
begin

unbundle bit_operations_syntax

section \<open>USB descriptor buffers\<close>

text \<open>
  A configuration descriptor is handed to the parser as a pointer
  (\<open>PUSB_CONFIGURATION_DESCRIPTOR\<close>).  The pointer is modelled as an optional memory,
  \<open>None\<close> being \<open>nullptr\<close>; the memory maps a byte offset from the pointer to the byte
  stored there.  The memory is total: a C++ read beyond the allocated buffer still
  yields some byte, and the parser functions below record every offset they read, so
  that out-of-bounds reads are visible in the model.

  Field offsets are those of the byte-packed USB descriptor structures:
  \<open>bLength\<close> at 0, \<open>bDescriptorType\<close> at 1; in a configuration descriptor
  \<open>wTotalLength\<close> at 2 (little endian) and \<open>iConfiguration\<close> at 6; in an interface
  descriptor \<open>bInterfaceClass\<close> at 5 and \<open>iInterface\<close> at 8.
\<close>

type_synonym memory = "nat \<Rightarrow> 8 word"

definition mem_of :: "8 word list \<Rightarrow> memory" where
  "mem_of bs = (\<lambda>i. if i < length bs then bs ! i else 0)"

definition bLength :: "memory \<Rightarrow> nat \<Rightarrow> nat" where
  "bLength m p = unat (m p)"

definition bDescriptorType :: "memory \<Rightarrow> nat \<Rightarrow> 8 word" where
  "bDescriptorType m p = m (p + 1)"

definition wTotalLength :: "memory \<Rightarrow> nat" where
  "wTotalLength m = unat (m 2) + 256 * unat (m 3)"

definition iConfiguration :: "memory \<Rightarrow> nat \<Rightarrow> 8 word" where
  "iConfiguration m p = m (p + 6)"

definition bInterfaceClass :: "memory \<Rightarrow> nat \<Rightarrow> 8 word" where
  "bInterfaceClass m p = m (p + 5)"

definition iInterface :: "memory \<Rightarrow> nat \<Rightarrow> 8 word" where
  "iInterface m p = m (p + 8)"

definition USB_CONFIGURATION_DESCRIPTOR_TYPE :: "8 word" where
  "USB_CONFIGURATION_DESCRIPTOR_TYPE = 2"

definition USB_INTERFACE_DESCRIPTOR_TYPE :: "8 word" where
  "USB_INTERFACE_DESCRIPTOR_TYPE = 4"

definition USB_OTHER_SPEED_CONFIGURATION_DESCRIPTOR_TYPE :: "8 word" where
  "USB_OTHER_SPEED_CONFIGURATION_DESCRIPTOR_TYPE = 7"

definition sizeof_USB_COMMON_DESCRIPTOR :: nat where
  "sizeof_USB_COMMON_DESCRIPTOR = 2"

definition sizeof_USB_CONFIGURATION_DESCRIPTOR :: nat where
  "sizeof_USB_CONFIGURATION_DESCRIPTOR = 9"

definition sizeof_USB_INTERFACE_DESCRIPTOR :: nat where
  "sizeof_USB_INTERFACE_DESCRIPTOR = 9"

text \<open>\<open>USB_INTERFACE_DESCRIPTOR2\<close> is declared in usbdesc.h outside any packing
  directive: nine one-byte fields and the two-byte \<open>wNumClasses\<close>, which the compiler
  aligns to offset 10, so that \<open>sizeof\<close> is 12.\<close>

definition sizeof_USB_INTERFACE_DESCRIPTOR2 :: nat where
  "sizeof_USB_INTERFACE_DESCRIPTOR2 = 12"

section \<open>UsbDescriptorParser\<close>

text \<open>
  Every parser function returns the list of offsets it has read together with its
  result.  \<open>IsDescriptorInBounds\<close> reads \<open>bLength\<close> only after the two-byte common
  header is known to fit.
\<close>

definition IsDescriptorInBounds :: "memory \<Rightarrow> nat \<Rightarrow> nat \<Rightarrow> nat list \<times> bool" where
  "IsDescriptorInBounds m commonDesc descEnd =
     (if commonDesc + sizeof_USB_COMMON_DESCRIPTOR > descEnd then ([], False)
      else if commonDesc + bLength m commonDesc > descEnd then ([commonDesc], False)
      else if bLength m commonDesc = 0 then ([commonDesc], False)
      else ([commonDesc], True))"

definition ValidateConfigurationDescriptor :: "memory option \<Rightarrow> nat list \<times> bool" where
  "ValidateConfigurationDescriptor configDesc =
     (case configDesc of
        None \<Rightarrow> ([], False)
      | Some m \<Rightarrow>
          if bLength m 0 < sizeof_USB_CONFIGURATION_DESCRIPTOR then ([0], False)
          else if bDescriptorType m 0 \<noteq> USB_CONFIGURATION_DESCRIPTOR_TYPE then ([0, 1], False)
          else if wTotalLength m < sizeof_USB_CONFIGURATION_DESCRIPTOR then ([0, 1, 2, 3], False)
          else ([0, 1, 2, 3], True))"

function ExtractInterfaceClass_walk ::
  "memory \<Rightarrow> nat \<Rightarrow> nat \<Rightarrow> nat list \<times> 8 word option" where
  "ExtractInterfaceClass_walk m descEnd commonDesc =
     (case IsDescriptorInBounds m commonDesc descEnd of
        (rd, False) \<Rightarrow> (rd, None)
      | (rd, True) \<Rightarrow>
          if bDescriptorType m commonDesc = USB_INTERFACE_DESCRIPTOR_TYPE
          then (rd @ [commonDesc + 1, commonDesc + 5], Some (bInterfaceClass m commonDesc))
          else (case ExtractInterfaceClass_walk m descEnd (commonDesc + bLength m commonDesc) of
                  (rd', r) \<Rightarrow> (rd @ [commonDesc + 1, commonDesc] @ rd', r)))"
  by pat_completeness auto
termination
  by (relation "measure (\<lambda>(m, descEnd, commonDesc). Suc descEnd - commonDesc)")
     (auto simp: IsDescriptorInBounds_def split: if_splits)

declare ExtractInterfaceClass_walk.simps [simp del]

definition ExtractInterfaceClass :: "memory option \<Rightarrow> nat list \<times> 8 word option" where
  "ExtractInterfaceClass configDesc =
     (case ValidateConfigurationDescriptor configDesc of
        (rd, False) \<Rightarrow> (rd, None)
      | (rd, True) \<Rightarrow>
          (case configDesc of
             None \<Rightarrow> (rd, None)
           | Some m \<Rightarrow>
               (case ExtractInterfaceClass_walk m (wTotalLength m) (bLength m 0) of
                  (rd', r) \<Rightarrow> (rd @ [2, 3, 0] @ rd', r))))"

text \<open>\<open>USB_DEVICE_DESCRIPTOR\<close> (18 bytes, descriptor type 1).\<close>

record USB_DEVICE_DESCRIPTOR =
  dev_bLength :: "8 word"
  dev_bDescriptorType :: "8 word"
  bcdUSB :: "16 word"
  bDeviceClass :: "8 word"
  bDeviceSubClass :: "8 word"
  bDeviceProtocol :: "8 word"
  bMaxPacketSize0 :: "8 word"
  idVendor :: "16 word"
  idProduct :: "16 word"
  bcdDevice :: "16 word"
  iManufacturer :: "8 word"
  iProduct :: "8 word"
  iSerialNumber :: "8 word"
  bNumConfigurations :: "8 word"

definition sizeof_USB_DEVICE_DESCRIPTOR :: nat where
  "sizeof_USB_DEVICE_DESCRIPTOR = 18"

definition USB_DEVICE_DESCRIPTOR_TYPE :: "8 word" where
  "USB_DEVICE_DESCRIPTOR_TYPE = 1"

definition ValidateDeviceDescriptor :: "USB_DEVICE_DESCRIPTOR \<Rightarrow> bool" where
  "ValidateDeviceDescriptor descriptor =
     (if unat (dev_bLength descriptor) \<noteq> sizeof_USB_DEVICE_DESCRIPTOR then False
      else if dev_bDescriptorType descriptor \<noteq> USB_DEVICE_DESCRIPTOR_TYPE then False
      else if bcdUSB descriptor < 0x0100 then False
      else True)"

function HasStringDescriptors_walk :: "memory \<Rightarrow> nat \<Rightarrow> nat \<Rightarrow> nat list \<times> bool" where
  "HasStringDescriptors_walk m descEnd commonDesc =
     (case IsDescriptorInBounds m commonDesc descEnd of
        (rd, False) \<Rightarrow> (rd, False)
      | (rd, True) \<Rightarrow>
          if bDescriptorType m commonDesc = USB_CONFIGURATION_DESCRIPTOR_TYPE then
            (if iConfiguration m commonDesc \<noteq> 0
             then (rd @ [commonDesc + 1, commonDesc + 6], True)
             else (case HasStringDescriptors_walk m descEnd (commonDesc + bLength m commonDesc) of
                     (rd', r) \<Rightarrow> (rd @ [commonDesc + 1, commonDesc + 6, commonDesc] @ rd', r)))
          else if bDescriptorType m commonDesc = USB_INTERFACE_DESCRIPTOR_TYPE then
            (if bLength m commonDesc \<noteq> sizeof_USB_INTERFACE_DESCRIPTOR \<and>
                bLength m commonDesc \<noteq> sizeof_USB_INTERFACE_DESCRIPTOR2
             then (rd @ [commonDesc + 1, commonDesc], False)
             else if iInterface m commonDesc \<noteq> 0
             then (rd @ [commonDesc + 1, commonDesc, commonDesc + 8], True)
             else (case HasStringDescriptors_walk m descEnd (commonDesc + bLength m commonDesc) of
                     (rd', r) \<Rightarrow> (rd @ [commonDesc + 1, commonDesc, commonDesc + 8] @ rd', r)))
          else (case HasStringDescriptors_walk m descEnd (commonDesc + bLength m commonDesc) of
                  (rd', r) \<Rightarrow> (rd @ [commonDesc + 1, commonDesc] @ rd', r)))"
  by pat_completeness auto
termination
  by (relation "measure (\<lambda>(m, descEnd, commonDesc). Suc descEnd - commonDesc)")
     (auto simp: IsDescriptorInBounds_def split: if_splits)

declare HasStringDescriptors_walk.simps [simp del]

definition HasStringDescriptors :: "memory option \<Rightarrow> nat list \<times> bool" where
  "HasStringDescriptors configDesc =
     (case ValidateConfigurationDescriptor configDesc of
        (rd, False) \<Rightarrow> (rd, False)
      | (rd, True) \<Rightarrow>
          (case configDesc of
             None \<Rightarrow> (rd, False)
           | Some m \<Rightarrow>
               (case HasStringDescriptors_walk m (wTotalLength m) (bLength m 0) of
                  (rd', r) \<Rightarrow> (rd @ [2, 3, 0] @ rd', r))))"

function GetInterfaceCount_walk :: "memory \<Rightarrow> nat \<Rightarrow> nat \<Rightarrow> nat \<Rightarrow> nat list \<times> nat" where
  "GetInterfaceCount_walk m descEnd commonDesc count =
     (case IsDescriptorInBounds m commonDesc descEnd of
        (rd, False) \<Rightarrow> (rd, count)
      | (rd, True) \<Rightarrow>
          (case GetInterfaceCount_walk m descEnd (commonDesc + bLength m commonDesc)
                  (if bDescriptorType m commonDesc = USB_INTERFACE_DESCRIPTOR_TYPE
                   then count + 1 else count) of
             (rd', r) \<Rightarrow> (rd @ [commonDesc + 1, commonDesc] @ rd', r)))"
  by pat_completeness auto
termination
  by (relation "measure (\<lambda>(m, descEnd, commonDesc, count). Suc descEnd - commonDesc)")
     (auto simp: IsDescriptorInBounds_def split: if_splits)

declare GetInterfaceCount_walk.simps [simp del]

definition GetInterfaceCount :: "memory option \<Rightarrow> nat list \<times> nat" where
  "GetInterfaceCount configDesc =
     (case ValidateConfigurationDescriptor configDesc of
        (rd, False) \<Rightarrow> (rd, 0)
      | (rd, True) \<Rightarrow>
          (case configDesc of
             None \<Rightarrow> (rd, 0)
           | Some m \<Rightarrow>
               (case GetInterfaceCount_walk m (wTotalLength m) (bLength m 0) 0 of
                  (rd', r) \<Rightarrow> (rd @ [2, 3, 0] @ rd', r))))"

section \<open>UsbHub::AreUsbDescriptorsCorrect\<close>

text \<open>
  The walk of \<open>AreUsbDescriptorsCorrect\<close> starts at the configuration descriptor itself.
  Its loop condition is \<open>commonDesc + 2 < descEnd && commonDesc + bLength <= descEnd\<close>;
  a zero \<open>bLength\<close> is not rejected, so the loop need not terminate and the walk is a
  partial function: \<open>None\<close> stands for a walk that never returns.  Every branch of the
  \<open>switch\<close> returns or continues the loop; the \<open>break\<close> after the \<open>switch\<close> is never
  reached.
\<close>

partial_function (option) AreUsbDescriptorsCorrect_walk :: "memory \<Rightarrow> nat \<Rightarrow> nat \<Rightarrow> bool option" where
  "AreUsbDescriptorsCorrect_walk m descEnd commonDesc =
     (if commonDesc + sizeof_USB_COMMON_DESCRIPTOR < descEnd \<and>
         commonDesc + bLength m commonDesc \<le> descEnd
      then
        (if bDescriptorType m commonDesc = USB_CONFIGURATION_DESCRIPTOR_TYPE \<or>
            bDescriptorType m commonDesc = USB_OTHER_SPEED_CONFIGURATION_DESCRIPTOR_TYPE
         then
           (if bLength m commonDesc \<noteq> sizeof_USB_CONFIGURATION_DESCRIPTOR then Some False
            else if iConfiguration m commonDesc \<noteq> 0 then Some True
            else AreUsbDescriptorsCorrect_walk m descEnd (commonDesc + bLength m commonDesc))
         else if bDescriptorType m commonDesc = USB_INTERFACE_DESCRIPTOR_TYPE
         then
           (if bLength m commonDesc \<noteq> sizeof_USB_INTERFACE_DESCRIPTOR \<and>
               bLength m commonDesc \<noteq> sizeof_USB_INTERFACE_DESCRIPTOR2 then Some False
            else if iInterface m commonDesc \<noteq> 0 then Some True
            else AreUsbDescriptorsCorrect_walk m descEnd (commonDesc + bLength m commonDesc))
         else AreUsbDescriptorsCorrect_walk m descEnd (commonDesc + bLength m commonDesc))
      else Some False)"

declare AreUsbDescriptorsCorrect_walk.simps [code]

definition AreUsbDescriptorsCorrect :: "USB_DEVICE_DESCRIPTOR \<Rightarrow> memory \<Rightarrow> bool option" where
  "AreUsbDescriptorsCorrect UsbDeviceDescriptor UsbConfigurationDescriptor =
     (if iManufacturer UsbDeviceDescriptor \<noteq> 0 \<or> iProduct UsbDeviceDescriptor \<noteq> 0 \<or>
         iSerialNumber UsbDeviceDescriptor \<noteq> 0
      then Some True
      else AreUsbDescriptorsCorrect_walk UsbConfigurationDescriptor
             (wTotalLength UsbConfigurationDescriptor) 0)"

section \<open>Descriptor chains and sample buffers\<close>

text \<open>
  \<open>chain m descEnd p q\<close>: following the \<open>bLength\<close> links from the sub-descriptor at
  offset \<open>p\<close>, through sub-descriptors that \<open>IsDescriptorInBounds\<close> accepts, leads to
  offset \<open>q\<close>.  \<open>ExtractInterfaceClass_reaches\<close> is the same relation restricted to the
  steps the loop of \<open>ExtractInterfaceClass\<close> takes: it only advances past a descriptor
  that is not an interface descriptor.
\<close>

inductive chain :: "memory \<Rightarrow> nat \<Rightarrow> nat \<Rightarrow> nat \<Rightarrow> bool" for m descEnd where
  chain_here: "chain m descEnd p p"
| chain_next: "snd (IsDescriptorInBounds m p descEnd) \<Longrightarrow>
     chain m descEnd (p + bLength m p) q \<Longrightarrow> chain m descEnd p q"

inductive ExtractInterfaceClass_reaches :: "memory \<Rightarrow> nat \<Rightarrow> nat \<Rightarrow> nat \<Rightarrow> bool"
  for m descEnd where
  reaches_here: "ExtractInterfaceClass_reaches m descEnd p p"
| reaches_next: "snd (IsDescriptorInBounds m p descEnd) \<Longrightarrow>
     bDescriptorType m p \<noteq> USB_INTERFACE_DESCRIPTOR_TYPE \<Longrightarrow>
     ExtractInterfaceClass_reaches m descEnd (p + bLength m p) q \<Longrightarrow>
     ExtractInterfaceClass_reaches m descEnd p q"

text \<open>
  The part of one iteration of \<open>AreUsbDescriptorsCorrect\<close> that does not loop: the value
  returned at the descriptor at \<open>commonDesc\<close>, or \<open>None\<close> when the iteration ends in
  \<open>continue\<close>.  \<open>AreUsbDescriptorsCorrect_skips\<close> relates a cursor to the cursors the
  loop reaches from it by such \<open>continue\<close> steps.
\<close>

definition AreUsbDescriptorsCorrect_verdict :: "memory \<Rightarrow> nat \<Rightarrow> nat \<Rightarrow> bool option" where
  "AreUsbDescriptorsCorrect_verdict m descEnd commonDesc =
     (if commonDesc + sizeof_USB_COMMON_DESCRIPTOR < descEnd \<and>
         commonDesc + bLength m commonDesc \<le> descEnd
      then
        (if bDescriptorType m commonDesc = USB_CONFIGURATION_DESCRIPTOR_TYPE \<or>
            bDescriptorType m commonDesc = USB_OTHER_SPEED_CONFIGURATION_DESCRIPTOR_TYPE
         then
           (if bLength m commonDesc \<noteq> sizeof_USB_CONFIGURATION_DESCRIPTOR then Some False
            else if iConfiguration m commonDesc \<noteq> 0 then Some True
            else None)
         else if bDescriptorType m commonDesc = USB_INTERFACE_DESCRIPTOR_TYPE
         then
           (if bLength m commonDesc \<noteq> sizeof_USB_INTERFACE_DESCRIPTOR \<and>
               bLength m commonDesc \<noteq> sizeof_USB_INTERFACE_DESCRIPTOR2 then Some False
            else if iInterface m commonDesc \<noteq> 0 then Some True
            else None)
         else None)
      else Some False)"

inductive AreUsbDescriptorsCorrect_skips :: "memory \<Rightarrow> nat \<Rightarrow> nat \<Rightarrow> nat \<Rightarrow> bool"
  for m descEnd where
  skips_here: "AreUsbDescriptorsCorrect_skips m descEnd p p"
| skips_next: "AreUsbDescriptorsCorrect_verdict m descEnd p = None \<Longrightarrow>
     AreUsbDescriptorsCorrect_skips m descEnd (p + bLength m p) q \<Longrightarrow>
     AreUsbDescriptorsCorrect_skips m descEnd p q"

text \<open>A configuration of total length 11 whose only sub-descriptor is a two-byte
  descriptor tagged as an interface descriptor.\<close>

definition truncated_interface_config :: memory where
  "truncated_interface_config = mem_of [9, 2, 11, 0, 1, 1, 0, 0x80, 50,  2, 4]"

text \<open>A mass-storage interface descriptor followed by a zero-length descriptor.\<close>

definition interface_then_zero_config :: memory where
  "interface_then_zero_config =
     mem_of [9, 2, 20, 0, 1, 1, 0, 0x80, 50,  9, 4, 0, 0, 0, 8, 6, 80, 0,  0, 5]"

text \<open>An endpoint descriptor followed by a zero-length descriptor.\<close>

definition endpoint_then_zero_config :: memory where
  "endpoint_then_zero_config =
     mem_of [9, 2, 18, 0, 1, 1, 0, 0x80, 50,  7, 5, 0x81, 2, 0, 2, 0,  0, 4]"

text \<open>Two configurations that agree on the configuration header and on the first
  interface descriptor and differ only in \<open>iInterface\<close> of the second interface
  descriptor, and a device descriptor without string indices.\<close>

definition two_interfaces_no_string :: "8 word list" where
  "two_interfaces_no_string =
     [9, 2, 27, 0, 2, 1, 0, 0x80, 50,  9, 4, 0, 0, 0, 8, 6, 80, 0,  9, 4, 1, 0, 0, 8, 6, 80, 0]"

definition two_interfaces_second_string :: "8 word list" where
  "two_interfaces_second_string =
     [9, 2, 27, 0, 2, 1, 0, 0x80, 50,  9, 4, 0, 0, 0, 8, 6, 80, 0,  9, 4, 1, 0, 0, 8, 6, 80, 3]"

definition device_without_strings :: USB_DEVICE_DESCRIPTOR where
  "device_without_strings =
     \<lparr>dev_bLength = 18, dev_bDescriptorType = 1, bcdUSB = 0x0200, bDeviceClass = 0,
      bDeviceSubClass = 0, bDeviceProtocol = 0, bMaxPacketSize0 = 64, idVendor = 0x0951,
      idProduct = 0x172B, bcdDevice = 1, iManufacturer = 0, iProduct = 0, iSerialNumber = 0,
      bNumConfigurations = 1\<rparr>"

section \<open>Kernel requests\<close>

text \<open>
  The outcome of one \<open>DeviceIoControl\<close> call: the \<open>BOOL\<close> it returns, the byte count
  it stores, the value of \<open>GetLastError()\<close> afterwards and the contents of the output
  buffer.  The operating system is a parameter of the model: a record with one
  function per control code, from the request to the outcome.
\<close>

record 'a ioctl =
  succeeded :: bool
  bytesReturned :: nat
  lastError :: "32 word"
  buffer :: 'a

text \<open>A wide string is a list of 16-bit code units; \<open>L\<close> is the wide literal of an
  ASCII string.\<close>

type_synonym wstring = "16 word list"

definition L :: "string \<Rightarrow> wstring" where
  "L s = map of_char s"

datatype USB_CONNECTION_STATUS =
    NoDeviceConnected
  | DeviceConnected
  | DeviceFailedEnumeration
  | DeviceGeneralFailure
  | DeviceCausedOvercurrent
  | DeviceNotEnoughPower
  | DeviceNotEnoughBandwidth
  | DeviceHubNestedTooDeeply
  | DeviceInLegacyHub
  | DeviceEnumerating
  | DeviceReset

text \<open>\<open>USB_DEVICE_SPEED\<close>, stored in a \<open>UCHAR\<close>.\<close>

definition UsbLowSpeed :: "8 word" where "UsbLowSpeed = 0"
definition UsbFullSpeed :: "8 word" where "UsbFullSpeed = 1"
definition UsbHighSpeed :: "8 word" where "UsbHighSpeed = 2"
definition UsbSuperSpeed :: "8 word" where "UsbSuperSpeed = 3"

record USB_ENDPOINT_DESCRIPTOR =
  ep_bLength :: "8 word"
  ep_bDescriptorType :: "8 word"
  bEndpointAddress :: "8 word"
  bmAttributes :: "8 word"
  wMaxPacketSize :: "16 word"
  bInterval :: "8 word"

record USB_PIPE_INFO =
  EndpointDescriptor :: USB_ENDPOINT_DESCRIPTOR
  ScheduleOffset :: "32 word"

text \<open>
  The connection-information structures end in the open array \<open>PipeList[0]\<close>; the
  code indexes it up to \<open>NumberOfOpenPipes\<close>, whatever the size of the buffer, so the
  array is modelled as a function from the index to what is stored there.
\<close>

record USB_NODE_CONNECTION_INFORMATION_EX =
  ex_ConnectionIndex :: "32 word"
  ex_DeviceDescriptor :: USB_DEVICE_DESCRIPTOR
  ex_CurrentConfigurationValue :: "8 word"
  ex_Speed :: "8 word"
  ex_DeviceIsHub :: "8 word"
  ex_DeviceAddress :: "16 word"
  ex_NumberOfOpenPipes :: "32 word"
  ex_ConnectionStatus :: USB_CONNECTION_STATUS
  ex_PipeList :: "nat \<Rightarrow> USB_PIPE_INFO"

record USB_NODE_CONNECTION_INFORMATION =
  ci_ConnectionIndex :: "32 word"
  ci_DeviceDescriptor :: USB_DEVICE_DESCRIPTOR
  ci_CurrentConfigurationValue :: "8 word"
  ci_LowSpeed :: "8 word"
  ci_DeviceIsHub :: "8 word"
  ci_DeviceAddress :: "16 word"
  ci_NumberOfOpenPipes :: "32 word"
  ci_ConnectionStatus :: USB_CONNECTION_STATUS
  ci_PipeList :: "nat \<Rightarrow> USB_PIPE_INFO"

record USB_NODE_CONNECTION_INFORMATION_EX_V2 =
  v2_ConnectionIndex :: "32 word"
  v2_Length :: "32 word"
  DeviceIsOperatingAtSuperSpeedOrHigher :: bool
  DeviceIsSuperSpeedCapableOrHigher :: bool
  DeviceIsOperatingAtSuperSpeedPlusOrHigher :: bool
  DeviceIsSuperSpeedPlusCapableOrHigher :: bool

record USB_NODE_INFORMATION =
  NodeType :: nat
  bNumberOfPorts :: "8 word"

record USB_HUB_INFORMATION_EX =
  HighestPortNumber :: "16 word"

record USB_HUB_CAPABILITIES_EX =
  HubIsRoot :: bool

record USB_PORT_CONNECTOR_PROPERTIES =
  pc_ConnectionIndex :: "32 word"
  pc_ActualLength :: nat
  CompanionIndex :: "16 word"
  CompanionPortNumber :: "16 word"
  CompanionHubSymbolicLinkName :: wstring

text \<open>\<open>USB_NODE_CONNECTION_DRIVERKEY_NAME\<close> and \<open>USB_NODE_CONNECTION_NAME\<close>: the
  connection index, \<open>ActualLength\<close> and the name.\<close>

record USB_NODE_CONNECTION_NAME =
  nm_ConnectionIndex :: "32 word"
  ActualLength :: nat
  Name :: wstring

text \<open>Sizes of the byte-packed request structures of \<open>usbioctl.h\<close>.\<close>

definition sizeof_USB_HUB_INFORMATION_EX :: nat where
  "sizeof_USB_HUB_INFORMATION_EX = 77"

definition sizeof_USB_HUB_CAPABILITIES_EX :: nat where
  "sizeof_USB_HUB_CAPABILITIES_EX = 4"

definition sizeof_USB_NODE_CONNECTION_INFORMATION_EX_V2 :: nat where
  "sizeof_USB_NODE_CONNECTION_INFORMATION_EX_V2 = 16"

definition sizeof_USB_PORT_CONNECTOR_PROPERTIES :: nat where
  "sizeof_USB_PORT_CONNECTOR_PROPERTIES = 18"

definition sizeof_USB_NODE_CONNECTION_NAME :: nat where
  "sizeof_USB_NODE_CONNECTION_NAME = 10"

text \<open>
  \<open>hFile_valid\<close>: the handle is set and is not \<open>INVALID_HANDLE_VALUE\<close>.  The requests
  that the code issues once per port take the connection index; the two-phase
  requests also take the size of the buffer they are given.  The descriptor request
  takes the connection index, \<open>wValue\<close> and \<open>wIndex\<close> of the setup packet and the
  buffer size; its buffer is the memory behind the \<open>USB_DESCRIPTOR_REQUEST\<close> header,
  where the descriptor is returned.  \<open>alloc_*\<close> tell whether \<open>make_unique_nothrow\<close>
  returns a buffer.
\<close>

record kernel =
  hFile_valid :: bool
  GET_NODE_INFORMATION :: "USB_NODE_INFORMATION ioctl"
  GET_HUB_INFORMATION_EX :: "USB_HUB_INFORMATION_EX ioctl"
  GET_HUB_CAPABILITIES_EX :: "USB_HUB_CAPABILITIES_EX ioctl"
  GET_PORT_CONNECTOR_PROPERTIES :: "32 word \<Rightarrow> nat \<Rightarrow> USB_PORT_CONNECTOR_PROPERTIES ioctl"
  GET_NODE_CONNECTION_INFORMATION_EX_V2 :: "32 word \<Rightarrow> USB_NODE_CONNECTION_INFORMATION_EX_V2 ioctl"
  GET_NODE_CONNECTION_INFORMATION_EX :: "32 word \<Rightarrow> USB_NODE_CONNECTION_INFORMATION_EX ioctl"
  GET_NODE_CONNECTION_INFORMATION :: "32 word \<Rightarrow> USB_NODE_CONNECTION_INFORMATION ioctl"
  GET_NODE_CONNECTION_DRIVERKEY_NAME :: "32 word \<Rightarrow> nat \<Rightarrow> USB_NODE_CONNECTION_NAME ioctl"
  GET_NODE_CONNECTION_NAME :: "32 word \<Rightarrow> nat \<Rightarrow> USB_NODE_CONNECTION_NAME ioctl"
  GET_DESCRIPTOR_FROM_NODE_CONNECTION ::
    "32 word \<Rightarrow> 16 word \<Rightarrow> 16 word \<Rightarrow> nat \<Rightarrow> memory ioctl"
  alloc_properties :: "nat \<Rightarrow> bool"
  alloc_connection_ex :: "nat \<Rightarrow> bool"
  alloc_connection :: "nat \<Rightarrow> bool"
  alloc_name :: "32 word \<Rightarrow> bool"
  alloc_descriptor :: "32 word \<Rightarrow> 16 word \<Rightarrow> bool"

section \<open>DeviceCommunication\<close>

text \<open>
  The exceptions of the transport: the two typed exceptions of Exceptions.h and
  \<open>wil::ResultException\<close>, raised by the \<open>THROW_*\<close> macros for a failed kernel call
  (carrying the error code), an unexpected length or a failed allocation.
\<close>

datatype error =
    InvalidDeviceArgumentException
  | InvalidDeviceHandleException
  | ResultException "32 word"

definition E_UNEXPECTED :: "32 word" where "E_UNEXPECTED = 0x8000FFFF"
definition E_OUTOFMEMORY :: "32 word" where "E_OUTOFMEMORY = 0x8007000E"

definition MaxPortsPerHub :: nat where "MaxPortsPerHub = 255"

record HubNodeInfo =
  type :: wstring
  numbersOfPorts :: "8 word"

record HubNodeInfoEx =
  highestPortNumber :: "16 word"
  isHubInfoExSupport :: bool

record HubNodeCapabilitiesEx =
  hubIsRoot :: bool

record HubPortInfo =
  pi_connectionIndex :: "32 word"
  companionIndex :: "16 word"
  companionPortNumber :: "16 word"
  companionHubSymbolicLinkName :: wstring
  isFilled :: bool

record HubConnectionInfo =
  connectionIndex :: "32 word"
  deviceDescriptor :: USB_DEVICE_DESCRIPTOR
  currentConfigurationValue :: "8 word"
  speed :: "8 word"
  deviceIsHub :: "8 word"
  deviceAddress :: "16 word"
  numberOfOpenPipes :: "32 word"
  connectionStatus :: USB_CONNECTION_STATUS
  pipeList :: "USB_PIPE_INFO list"
  driverKeyName :: wstring

definition zero_device_descriptor :: USB_DEVICE_DESCRIPTOR where
  "zero_device_descriptor =
     \<lparr>dev_bLength = 0, dev_bDescriptorType = 0, bcdUSB = 0, bDeviceClass = 0,
      bDeviceSubClass = 0, bDeviceProtocol = 0, bMaxPacketSize0 = 0, idVendor = 0,
      idProduct = 0, bcdDevice = 0, iManufacturer = 0, iProduct = 0, iSerialNumber = 0,
      bNumConfigurations = 0\<rparr>"

text \<open>A default-constructed \<open>HubConnectionInfo\<close>.\<close>

definition default_HubConnectionInfo :: HubConnectionInfo where
  "default_HubConnectionInfo =
     \<lparr>connectionIndex = 0, deviceDescriptor = zero_device_descriptor,
      currentConfigurationValue = 0, speed = 0, deviceIsHub = 0, deviceAddress = 0,
      numberOfOpenPipes = 0, connectionStatus = NoDeviceConnected, pipeList = [],
      driverKeyName = []\<rparr>"

definition MapHubNodeType :: "nat \<Rightarrow> wstring" where
  "MapHubNodeType nodeType =
     (if nodeType = 0 then L ''UsbHub'' else if nodeType = 1 then L ''UsbMIParent''
      else L ''unknown'')"

definition GetUsbHubNodeInformation :: "kernel \<Rightarrow> error + HubNodeInfo" where
  "GetUsbHubNodeInformation k =
     (let r = GET_NODE_INFORMATION k in
      if \<not> succeeded r then Inl (ResultException (lastError r))
      else Inr \<lparr>type = MapHubNodeType (NodeType (buffer r)),
                numbersOfPorts = bNumberOfPorts (buffer r)\<rparr>)"

definition GetUsbHubNodeInformationEx :: "kernel \<Rightarrow> error + HubNodeInfoEx" where
  "GetUsbHubNodeInformationEx k =
     (let r = GET_HUB_INFORMATION_EX k;
          isSupported = (succeeded r \<and> bytesReturned r \<ge> sizeof_USB_HUB_INFORMATION_EX)
      in Inr \<lparr>highestPortNumber = (if isSupported then HighestPortNumber (buffer r) else 0),
               isHubInfoExSupport = isSupported\<rparr>)"

definition GetUsbHubNodeCapabilitiesEx :: "kernel \<Rightarrow> error + HubNodeCapabilitiesEx" where
  "GetUsbHubNodeCapabilitiesEx k =
     (let r = GET_HUB_CAPABILITIES_EX k in
      if \<not> succeeded r \<or> bytesReturned r < sizeof_USB_HUB_CAPABILITIES_EX
      then Inl (ResultException (lastError r))
      else Inr \<lparr>hubIsRoot = HubIsRoot (buffer r)\<rparr>)"



text \<open>The two-phase name queries.  \<open>GetDriverKeyName\<close> validates its argument and the
  handle; \<open>GetUsbExternalHubName\<close> issues the first request at once.\<close>

definition GetDriverKeyName :: "kernel \<Rightarrow> 32 word \<Rightarrow> error + wstring" where
  "GetDriverKeyName k connIndex =
     (if connIndex = 0 then Inl InvalidDeviceArgumentException
      else if \<not> hFile_valid k then Inl InvalidDeviceHandleException
      else
        let r1 = GET_NODE_CONNECTION_DRIVERKEY_NAME k connIndex sizeof_USB_NODE_CONNECTION_NAME in
        if \<not> succeeded r1 then Inl (ResultException (lastError r1))
        else
          let requiredSize = ActualLength (buffer r1) in
          if requiredSize \<le> sizeof_USB_NODE_CONNECTION_NAME then Inl (ResultException E_UNEXPECTED)
          else if \<not> alloc_name k connIndex then Inl (ResultException E_OUTOFMEMORY)
          else
            let r2 = GET_NODE_CONNECTION_DRIVERKEY_NAME k connIndex requiredSize in
            if \<not> succeeded r2 then Inl (ResultException (lastError r2))
            else Inr (Name (buffer r2)))"


text \<open>\<open>std::map::try_emplace\<close>: the entry is stored only when the key is absent.\<close>

definition try_emplace :: "(nat \<rightharpoonup> 'a) \<Rightarrow> nat \<Rightarrow> 'a \<Rightarrow> (nat \<rightharpoonup> 'a)" where
  "try_emplace m key v = (case m key of None \<Rightarrow> m(key \<mapsto> v) | Some old \<Rightarrow> m)"

definition queryPortConnectorProps :: "kernel \<Rightarrow> nat \<Rightarrow> HubPortInfo option" where
  "queryPortConnectorProps k portIndex =
     (let r1 = GET_PORT_CONNECTOR_PROPERTIES k (of_nat portIndex) sizeof_USB_PORT_CONNECTOR_PROPERTIES in
      if \<not> succeeded r1 \<or> bytesReturned r1 \<noteq> sizeof_USB_PORT_CONNECTOR_PROPERTIES then None
      else if \<not> alloc_properties k portIndex then None
      else
        let len = pc_ActualLength (buffer r1);
            r2 = GET_PORT_CONNECTOR_PROPERTIES k (of_nat portIndex) len
        in if \<not> succeeded r2 \<or> bytesReturned r2 < len
           then Some \<lparr>pi_connectionIndex = 0, companionIndex = 0, companionPortNumber = 0,
                       companionHubSymbolicLinkName = [], isFilled = False\<rparr>
           else Some \<lparr>pi_connectionIndex = pc_ConnectionIndex (buffer r2),
                       companionIndex = CompanionIndex (buffer r2),
                       companionPortNumber = CompanionPortNumber (buffer r2),
                       companionHubSymbolicLinkName = CompanionHubSymbolicLinkName (buffer r2),
                       isFilled = True\<rparr>)"

fun EnumeratePorts_loop ::
  "kernel \<Rightarrow> nat list \<Rightarrow> (nat \<rightharpoonup> HubPortInfo) \<Rightarrow> (nat \<rightharpoonup> HubPortInfo)" where
  "EnumeratePorts_loop k [] portConnectorProps = portConnectorProps"
| "EnumeratePorts_loop k (portNumber # rest) portConnectorProps =
     (case queryPortConnectorProps k portNumber of
        None \<Rightarrow> EnumeratePorts_loop k rest portConnectorProps
      | Some portInfo \<Rightarrow>
          EnumeratePorts_loop k rest (try_emplace portConnectorProps portNumber portInfo))"

definition EnumeratePorts ::
  "kernel \<Rightarrow> 32 word \<Rightarrow> (nat \<rightharpoonup> HubPortInfo) \<Rightarrow> error + (nat \<rightharpoonup> HubPortInfo)" where
  "EnumeratePorts k numberOfPorts portConnectorProps =
     (if numberOfPorts = 0 then Inl InvalidDeviceArgumentException
      else if unat numberOfPorts > MaxPortsPerHub then Inl InvalidDeviceArgumentException
      else if \<not> hFile_valid k then Inl InvalidDeviceHandleException
      else Inr (EnumeratePorts_loop k [1..<Suc (unat numberOfPorts)] portConnectorProps))"

subsection \<open>EnumeratePortsConnectionInfo\<close>

definition queryConnectionInfoV2 ::
  "kernel \<Rightarrow> nat \<Rightarrow> USB_NODE_CONNECTION_INFORMATION_EX_V2 option" where
  "queryConnectionInfoV2 k portIndex =
     (let r = GET_NODE_CONNECTION_INFORMATION_EX_V2 k (of_nat portIndex) in
      if succeeded r \<and> bytesReturned r \<ge> sizeof_USB_NODE_CONNECTION_INFORMATION_EX_V2
      then Some (buffer r) else None)"

definition populateConnectionInfo ::
  "HubConnectionInfo \<Rightarrow> USB_NODE_CONNECTION_INFORMATION_EX \<Rightarrow> nat \<Rightarrow>
   USB_NODE_CONNECTION_INFORMATION_EX_V2 option \<Rightarrow> HubConnectionInfo" where
  "populateConnectionInfo info connEx portIndex v2Info =
     (let adjustedSpeed =
            (if ex_Speed connEx = UsbHighSpeed \<and> v2Info \<noteq> None then
               (if DeviceIsOperatingAtSuperSpeedOrHigher (the v2Info) \<or>
                   DeviceIsOperatingAtSuperSpeedPlusOrHigher (the v2Info)
                then UsbSuperSpeed else ex_Speed connEx)
             else ex_Speed connEx)
      in info\<lparr>connectionIndex := of_nat portIndex,
               connectionStatus := ex_ConnectionStatus connEx,
               currentConfigurationValue := ex_CurrentConfigurationValue connEx,
               deviceAddress := ex_DeviceAddress connEx,
               deviceDescriptor := ex_DeviceDescriptor connEx,
               deviceIsHub := ex_DeviceIsHub connEx,
               numberOfOpenPipes := ex_NumberOfOpenPipes connEx,
               speed := adjustedSpeed,
               pipeList := map (ex_PipeList connEx) [0..<unat (ex_NumberOfOpenPipes connEx)]\<rparr>)"

definition queryLegacyConnectionInfo ::
  "kernel \<Rightarrow> nat \<Rightarrow> error + (HubConnectionInfo \<times> bool) option" where
  "queryLegacyConnectionInfo k portIndex =
     (if \<not> alloc_connection k portIndex then Inl (ResultException E_OUTOFMEMORY)
      else
        let r = GET_NODE_CONNECTION_INFORMATION k (of_nat portIndex) in
        if \<not> succeeded r then Inr None
        else
          let connInfo = buffer r;
              info = default_HubConnectionInfo
                \<lparr>connectionIndex := of_nat portIndex,
                 connectionStatus := ci_ConnectionStatus connInfo,
                 currentConfigurationValue := ci_CurrentConfigurationValue connInfo,
                 deviceAddress := ci_DeviceAddress connInfo,
                 deviceDescriptor := ci_DeviceDescriptor connInfo,
                 deviceIsHub := ci_DeviceIsHub connInfo,
                 numberOfOpenPipes := ci_NumberOfOpenPipes connInfo,
                 speed := (if ci_LowSpeed connInfo \<noteq> 0 then UsbLowSpeed else UsbFullSpeed),
                 pipeList := pipeList default_HubConnectionInfo @
                   map (ci_PipeList connInfo) [0..<unat (ci_NumberOfOpenPipes connInfo)]\<rparr>;
              isConnected = (ci_ConnectionStatus connInfo \<noteq> NoDeviceConnected)
          in Inr (Some (info, isConnected)))"

text \<open>The driver key of a connected device is fetched inside \<open>try\<close>/\<open>catch (...)\<close>: a
  failure leaves the field as it is.\<close>

definition retrieveDriverKeyName :: "kernel \<Rightarrow> nat \<Rightarrow> bool \<Rightarrow> HubConnectionInfo \<Rightarrow> HubConnectionInfo" where
  "retrieveDriverKeyName k portNumber deviceConnected connectionInfo =
     (if deviceConnected then
        (case GetDriverKeyName k (of_nat portNumber) of
           Inr name \<Rightarrow> connectionInfo\<lparr>driverKeyName := name\<rparr>
         | Inl e \<Rightarrow> connectionInfo)
      else connectionInfo)"

text \<open>One iteration of the port loop up to \<open>try_emplace\<close>: an exception, \<open>None\<close> for
  \<open>continue\<close>, or the record to store.\<close>

definition processPort :: "kernel \<Rightarrow> nat \<Rightarrow> error + HubConnectionInfo option" where
  "processPort k portNumber =
     (let v2Info = queryConnectionInfoV2 k portNumber in
      if \<not> alloc_connection_ex k portNumber then Inl (ResultException E_OUTOFMEMORY)
      else
        let r = GET_NODE_CONNECTION_INFORMATION_EX k (of_nat portNumber) in
        if succeeded r then
          Inr (Some (retrieveDriverKeyName k portNumber
                 (ex_ConnectionStatus (buffer r) \<noteq> NoDeviceConnected)
                 (populateConnectionInfo default_HubConnectionInfo (buffer r) portNumber v2Info)))
        else
          (case queryLegacyConnectionInfo k portNumber of
             Inl e \<Rightarrow> Inl e
           | Inr None \<Rightarrow> Inr None
           | Inr (Some legacyResult) \<Rightarrow>
               Inr (Some (retrieveDriverKeyName k portNumber (snd legacyResult) (fst legacyResult)))))"

fun EnumeratePortsConnectionInfo_loop ::
  "kernel \<Rightarrow> nat list \<Rightarrow> (nat \<rightharpoonup> HubConnectionInfo) \<Rightarrow> error + (nat \<rightharpoonup> HubConnectionInfo)" where
  "EnumeratePortsConnectionInfo_loop k [] hubConnectionInfoList = Inr hubConnectionInfoList"
| "EnumeratePortsConnectionInfo_loop k (portNumber # rest) hubConnectionInfoList =
     (case processPort k portNumber of
        Inl e \<Rightarrow> Inl e
      | Inr None \<Rightarrow> EnumeratePortsConnectionInfo_loop k rest hubConnectionInfoList
      | Inr (Some connectionInfo) \<Rightarrow>
          EnumeratePortsConnectionInfo_loop k rest
            (try_emplace hubConnectionInfoList portNumber connectionInfo))"

definition EnumeratePortsConnectionInfo ::
  "kernel \<Rightarrow> 32 word \<Rightarrow> (nat \<rightharpoonup> HubConnectionInfo) \<Rightarrow> error + (nat \<rightharpoonup> HubConnectionInfo)" where
  "EnumeratePortsConnectionInfo k numberOfPorts hubConnectionInfoList =
     (if numberOfPorts = 0 then Inl InvalidDeviceArgumentException
      else if unat numberOfPorts > MaxPortsPerHub then Inl InvalidDeviceArgumentException
      else if \<not> hFile_valid k then Inl InvalidDeviceHandleException
      else EnumeratePortsConnectionInfo_loop k [1..<Suc (unat numberOfPorts)] Map.empty)"

subsection \<open>Descriptor requests\<close>

definition sizeof_USB_DESCRIPTOR_REQUEST :: nat where
  "sizeof_USB_DESCRIPTOR_REQUEST = 12"

definition MAXIMUM_USB_STRING_LENGTH :: nat where
  "MAXIMUM_USB_STRING_LENGTH = 255"

definition USB_STRING_DESCRIPTOR_TYPE :: "8 word" where
  "USB_STRING_DESCRIPTOR_TYPE = 3"

text \<open>\<open>wValue\<close> of the setup packet: the descriptor type in the high byte, the
  descriptor index in the low byte.\<close>

definition descriptor_wValue :: "8 word \<Rightarrow> 8 word \<Rightarrow> 16 word" where
  "descriptor_wValue descriptorType descriptorIndex =
     push_bit 8 (ucast descriptorType) OR ucast descriptorIndex"

text \<open>
  \<open>GetConfigDescriptor\<close>: \<open>Inr None\<close> is the \<open>nullptr\<close> it returns when a request fails or
  returns a byte count other than the size asked for; a failed request is not an
  exception.
\<close>

definition GetConfigDescriptor :: "kernel \<Rightarrow> 32 word \<Rightarrow> 8 word \<Rightarrow> error + memory option" where
  "GetConfigDescriptor k connIndex descriptorIndex =
     (if connIndex = 0 then Inl InvalidDeviceArgumentException
      else if \<not> hFile_valid k then Inl InvalidDeviceHandleException
      else
        let wValue = descriptor_wValue USB_CONFIGURATION_DESCRIPTOR_TYPE descriptorIndex;
            initialBufferSize = sizeof_USB_DESCRIPTOR_REQUEST + sizeof_USB_CONFIGURATION_DESCRIPTOR;
            r1 = GET_DESCRIPTOR_FROM_NODE_CONNECTION k connIndex wValue 0 initialBufferSize
        in
        if \<not> succeeded r1 \<or> bytesReturned r1 \<noteq> initialBufferSize then Inr None
        else
          let totalDescriptorLength = wTotalLength (buffer r1) in
          if totalDescriptorLength < sizeof_USB_CONFIGURATION_DESCRIPTOR then Inr None
          else
            let fullBufferSize = sizeof_USB_DESCRIPTOR_REQUEST + totalDescriptorLength in
            if \<not> alloc_descriptor k connIndex wValue then Inl (ResultException E_OUTOFMEMORY)
            else
              let r2 = GET_DESCRIPTOR_FROM_NODE_CONNECTION k connIndex wValue 0 fullBufferSize in
              if \<not> succeeded r2 \<or> bytesReturned r2 \<noteq> fullBufferSize then Inr None
              else if wTotalLength (buffer r2) < sizeof_USB_CONFIGURATION_DESCRIPTOR then Inr None
              else Inr (Some (buffer r2)))"

text \<open>
  \<open>STRING_DESCRIPTOR_NODE\<close>: the node is allocated with \<open>bLength\<close> bytes beyond its own
  size and zeroed, and the \<open>bLength\<close> bytes of the string descriptor are copied into
  it; \<open>StringDescriptor\<close> holds those bytes, and what follows them in the node is zero.
\<close>

record STRING_DESCRIPTOR_NODE =
  node_DescriptorIndex :: "8 word"
  node_LanguageID :: "16 word"
  StringDescriptor :: "8 word list"

definition GetStringDescriptor ::
  "kernel \<Rightarrow> 32 word \<Rightarrow> 8 word \<Rightarrow> 16 word \<Rightarrow> error + STRING_DESCRIPTOR_NODE option" where
  "GetStringDescriptor k connIndex descriptorIndex languageId =
     (if connIndex = 0 then Inl InvalidDeviceArgumentException
      else if \<not> hFile_valid k then Inl InvalidDeviceHandleException
      else
        let wValue = descriptor_wValue USB_STRING_DESCRIPTOR_TYPE descriptorIndex;
            requestBufferSize = sizeof_USB_DESCRIPTOR_REQUEST + MAXIMUM_USB_STRING_LENGTH;
            r = GET_DESCRIPTOR_FROM_NODE_CONNECTION k connIndex wValue languageId requestBufferSize;
            stringDescriptor = buffer r
        in
        if \<not> succeeded r then Inr None
        else if bytesReturned r < sizeof_USB_DESCRIPTOR_REQUEST + 2 then Inr None
        else if bDescriptorType stringDescriptor 0 \<noteq> USB_STRING_DESCRIPTOR_TYPE then Inr None
        else if bLength stringDescriptor 0 \<noteq> bytesReturned r - sizeof_USB_DESCRIPTOR_REQUEST
        then Inr None
        else if bLength stringDescriptor 0 mod 2 \<noteq> 0 then Inr None
        else if \<not> alloc_descriptor k connIndex wValue then Inl (ResultException E_OUTOFMEMORY)
        else Inr (Some \<lparr>node_DescriptorIndex = descriptorIndex, node_LanguageID = languageId,
                          StringDescriptor =
                            map stringDescriptor [0..<bLength stringDescriptor 0]\<rparr>))"

text \<open>The 16-bit unit at a byte offset of the node's string descriptor (little endian),
  and the wide string that starts at \<open>bString\<close> and ends at the first zero unit.\<close>

definition node_byte :: "STRING_DESCRIPTOR_NODE \<Rightarrow> nat \<Rightarrow> 8 word" where
  "node_byte node i =
     (if i < length (StringDescriptor node) then StringDescriptor node ! i else 0)"

definition node_unit :: "STRING_DESCRIPTOR_NODE \<Rightarrow> nat \<Rightarrow> 16 word" where
  "node_unit node i = ucast (node_byte node i) OR push_bit 8 (ucast (node_byte node (i + 1)))"

definition bString :: "STRING_DESCRIPTOR_NODE \<Rightarrow> wstring" where
  "bString node =
     takeWhile (\<lambda>u. u \<noteq> 0)
       (map (\<lambda>j. node_unit node (2 + 2 * j)) [0..<(length (StringDescriptor node) - 2) div 2])"

subsection \<open>Sample kernels\<close>

definition failed_ioctl :: "'a \<Rightarrow> 'a ioctl" where
  "failed_ioctl b = \<lparr>succeeded = False, bytesReturned = 0, lastError = 1, buffer = b\<rparr>"

definition completed_ioctl :: "nat \<Rightarrow> 'a \<Rightarrow> 'a ioctl" where
  "completed_ioctl n b = \<lparr>succeeded = True, bytesReturned = n, lastError = 0, buffer = b\<rparr>"

definition zero_pipe :: USB_PIPE_INFO where
  "zero_pipe =
     \<lparr>EndpointDescriptor = \<lparr>ep_bLength = 0, ep_bDescriptorType = 0, bEndpointAddress = 0,
        bmAttributes = 0, wMaxPacketSize = 0, bInterval = 0\<rparr>,
      ScheduleOffset = 0\<rparr>"

definition zero_connection_ex :: USB_NODE_CONNECTION_INFORMATION_EX where
  "zero_connection_ex =
     \<lparr>ex_ConnectionIndex = 0, ex_DeviceDescriptor = zero_device_descriptor,
      ex_CurrentConfigurationValue = 0, ex_Speed = 0, ex_DeviceIsHub = 0, ex_DeviceAddress = 0,
      ex_NumberOfOpenPipes = 0, ex_ConnectionStatus = NoDeviceConnected,
      ex_PipeList = (\<lambda>i. zero_pipe)\<rparr>"

definition zero_connection :: USB_NODE_CONNECTION_INFORMATION where
  "zero_connection =
     \<lparr>ci_ConnectionIndex = 0, ci_DeviceDescriptor = zero_device_descriptor,
      ci_CurrentConfigurationValue = 0, ci_LowSpeed = 0, ci_DeviceIsHub = 0, ci_DeviceAddress = 0,
      ci_NumberOfOpenPipes = 0, ci_ConnectionStatus = NoDeviceConnected,
      ci_PipeList = (\<lambda>i. zero_pipe)\<rparr>"

definition zero_connection_v2 :: USB_NODE_CONNECTION_INFORMATION_EX_V2 where
  "zero_connection_v2 =
     \<lparr>v2_ConnectionIndex = 0, v2_Length = 0, DeviceIsOperatingAtSuperSpeedOrHigher = False,
      DeviceIsSuperSpeedCapableOrHigher = False, DeviceIsOperatingAtSuperSpeedPlusOrHigher = False,
      DeviceIsSuperSpeedPlusCapableOrHigher = False\<rparr>"

definition zero_name :: USB_NODE_CONNECTION_NAME where
  "zero_name = \<lparr>nm_ConnectionIndex = 0, ActualLength = 0, Name = []\<rparr>"

definition zero_properties :: USB_PORT_CONNECTOR_PROPERTIES where
  "zero_properties =
     \<lparr>pc_ConnectionIndex = 0, pc_ActualLength = 0, CompanionIndex = 0, CompanionPortNumber = 0,
      CompanionHubSymbolicLinkName = []\<rparr>"

text \<open>
  A hub with two ports on an operating system that supports neither extended hub
  request.  Port 1 answers the primary query: a connected device that the primary
  query reports at high speed and the V2 query at SuperSpeed, with one open pipe and
  device address 0.  Port 2 answers only the legacy query: a connected device, not
  low speed, device address 0.  No driver key can be fetched.
\<close>

definition two_port_hub :: kernel where
  "two_port_hub =
     \<lparr>hFile_valid = True,
      GET_NODE_INFORMATION = completed_ioctl 76 \<lparr>NodeType = 0, bNumberOfPorts = 2\<rparr>,
      GET_HUB_INFORMATION_EX = failed_ioctl \<lparr>HighestPortNumber = 0\<rparr>,
      GET_HUB_CAPABILITIES_EX = failed_ioctl \<lparr>HubIsRoot = False\<rparr>,
      GET_PORT_CONNECTOR_PROPERTIES = (\<lambda>i n. failed_ioctl zero_properties),
      GET_NODE_CONNECTION_INFORMATION_EX_V2 =
        (\<lambda>i. if i = 1
             then completed_ioctl 16 (zero_connection_v2\<lparr>DeviceIsOperatingAtSuperSpeedOrHigher := True\<rparr>)
             else failed_ioctl zero_connection_v2),
      GET_NODE_CONNECTION_INFORMATION_EX =
        (\<lambda>i. if i = 1
             then completed_ioctl 47 (zero_connection_ex
                    \<lparr>ex_ConnectionIndex := 1, ex_Speed := UsbHighSpeed, ex_NumberOfOpenPipes := 1,
                     ex_ConnectionStatus := DeviceConnected\<rparr>)
             else failed_ioctl zero_connection_ex),
      GET_NODE_CONNECTION_INFORMATION =
        (\<lambda>i. if i = 2
             then completed_ioctl 35 (zero_connection
                    \<lparr>ci_ConnectionIndex := 2, ci_ConnectionStatus := DeviceConnected\<rparr>)
             else failed_ioctl zero_connection),
      GET_NODE_CONNECTION_DRIVERKEY_NAME = (\<lambda>i n. failed_ioctl zero_name),
      GET_NODE_CONNECTION_NAME = (\<lambda>i n. failed_ioctl zero_name),
      GET_DESCRIPTOR_FROM_NODE_CONNECTION = (\<lambda>i v l n. failed_ioctl (\<lambda>a. 0)),
      alloc_properties = (\<lambda>p. True),
      alloc_connection_ex = (\<lambda>p. True),
      alloc_connection = (\<lambda>p. True),
      alloc_name = (\<lambda>i. True),
      alloc_descriptor = (\<lambda>i v. True)\<rparr>"

text \<open>The same hub when port 2 answers neither connection query.\<close>

definition silent_port_hub :: kernel where
  "silent_port_hub =
     two_port_hub\<lparr>GET_NODE_CONNECTION_INFORMATION := (\<lambda>i. failed_ioctl zero_connection)\<rparr>"

text \<open>The same hub when the V2 request of port 1 is rejected and leaves a buffer with
  the SuperSpeed flag set.\<close>

definition v2_rejected_hub :: kernel where
  "v2_rejected_hub =
     two_port_hub\<lparr>GET_NODE_CONNECTION_INFORMATION_EX_V2 :=
       (\<lambda>i. failed_ioctl (zero_connection_v2\<lparr>DeviceIsOperatingAtSuperSpeedOrHigher := True\<rparr>))\<rparr>"

text \<open>The same hub behind a handle that is not open, whatever the driver behind it
  would answer.\<close>

definition closed_hub :: kernel where
  "closed_hub =
     two_port_hub\<lparr>hFile_valid := False,
       GET_NODE_CONNECTION_NAME :=
         (\<lambda>i n. completed_ioctl n (zero_name\<lparr>ActualLength := 30, Name := L ''HUB''\<rparr>))\<rparr>"


text \<open>The connection maps the enumeration yields on the sample hubs.\<close>

definition two_port_hub_connections :: "nat \<rightharpoonup> HubConnectionInfo" where
  "two_port_hub_connections =
     (case EnumeratePortsConnectionInfo two_port_hub 2 Map.empty of
        Inr m \<Rightarrow> m | Inl e \<Rightarrow> Map.empty)"

definition silent_port_hub_connections :: "nat \<rightharpoonup> HubConnectionInfo" where
  "silent_port_hub_connections =
     (case EnumeratePortsConnectionInfo silent_port_hub 2 Map.empty of
        Inr m \<Rightarrow> m | Inl e \<Rightarrow> Map.empty)"

definition v2_rejected_hub_connections :: "nat \<rightharpoonup> HubConnectionInfo" where
  "v2_rejected_hub_connections =
     (case EnumeratePortsConnectionInfo v2_rejected_hub 2 Map.empty of
        Inr m \<Rightarrow> m | Inl e \<Rightarrow> Map.empty)"

section \<open>UsbHub and DevicesManager\<close>

text \<open>
  The registry records the manager receives (\<open>DevInfoData\<close>).  \<open>GetDevicePath\<close> is
  the outcome of building a \<open>DeviceInfo\<close> on the record, calling \<open>PopulateUsbInfo\<close>
  and reading the device path: the path, or the exception SetupAPI's failure raises.
\<close>

type_synonym GUID = string

record DevInfoData =
  hardwareId :: wstring
  dev_driverKeyName :: wstring
  classGuid :: GUID
  deviceDescription :: wstring
  GetDevicePath :: "error + wstring"

definition GUID_DEVINTERFACE_USB_DEVICE :: GUID where
  "GUID_DEVINTERFACE_USB_DEVICE = ''{A5DCBF10-6530-11D2-901F-00C04FB951ED}''"

record UsbDeviceDescriptorInfo =
  manufacturer :: wstring
  product :: wstring
  serialNumber :: wstring
  interfaceClass :: "8 word option"

definition GetInterfaceClass :: "UsbDeviceDescriptorInfo \<Rightarrow> 8 word" where
  "GetInterfaceClass info = (case interfaceClass info of Some c \<Rightarrow> c | None \<Rightarrow> 0xFF)"

text \<open>The fields of \<open>DeviceResultantInfo\<close>; the source writes them with a trailing
  underscore.\<close>

record DeviceResultantInfo =
  res_manufacturer :: wstring
  res_product :: wstring
  res_serialNumber :: wstring
  res_description :: wstring
  res_deviceId :: wstring
  res_friendlyName :: wstring
  res_devicePath :: wstring
  res_vendorName :: wstring
  res_interfaceClassName :: wstring
  res_deviceClass :: "8 word"
  res_interfaceClass :: "8 word"
  res_setupClassGuid :: GUID
  res_vendorId :: "32 word"
  res_productId :: "32 word"
  res_isUsbDevice :: bool
  res_isConnected :: bool

definition default_DeviceResultantInfo :: DeviceResultantInfo where
  "default_DeviceResultantInfo =
     \<lparr>res_manufacturer = [], res_product = [], res_serialNumber = [], res_description = [], res_deviceId = [],
      res_friendlyName = [], res_devicePath = [], res_vendorName = [], res_interfaceClassName = [],
      res_deviceClass = 0, res_interfaceClass = 0xFF, res_setupClassGuid = [], res_vendorId = 0,
      res_productId = 0, res_isUsbDevice = False, res_isConnected = False\<rparr>"

text \<open>
  What the manager's surroundings supply.  \<open>CreateFileW\<close> gives the device behind a
  path (with \<open>hFile_valid\<close> false when it cannot be opened) and the last error code.
  \<open>usbDeviceInstances\<close> and \<open>controllerInstances\<close> are what the two
  \<open>DeviceEnumerator\<close>s yield: the registry records of the USB devices, and for each
  host controller the root hub name that opening and querying the controller gives, or
  the exception raised on the way.  The vendor and class-name tables and \<open>towupper\<close>
  are lookup functions.
\<close>

record world =
  CreateFileW :: "wstring \<Rightarrow> kernel \<times> 32 word"
  GetVendorStringById :: "16 word \<Rightarrow> wstring"
  GetUsbClassNameByDescId :: "8 word \<Rightarrow> wstring"
  towupper :: "16 word \<Rightarrow> 16 word"
  usbDeviceInstances :: "error + DevInfoData list"
  controllerInstances :: "error + (error + wstring) list"

text \<open>\<open>std::map::emplace\<close> on a map kept as a list in key order, the order in which
  the manager iterates over it.\<close>

fun emplace :: "(nat \<times> 'a) list \<Rightarrow> nat \<Rightarrow> 'a \<Rightarrow> (nat \<times> 'a) list" where
  "emplace [] key v = [(key, v)]"
| "emplace ((key', v') # rest) key v =
     (if key < key' then (key, v) # (key', v') # rest
      else if key = key' then (key', v') # rest
      else (key', v') # emplace rest key v)"

record UsbHub =
  hubName :: wstring
  numberOfPorts :: "32 word"
  pDeviceCommunication :: kernel
  hubPortConnectorProperties :: "nat \<rightharpoonup> HubPortInfo"
  hubPortConnectionInfo :: "nat \<rightharpoonup> HubConnectionInfo"
  portUsbConfigurationDescriptor :: "(nat \<times> memory) list"
  usbDeviceDescriptionInfo :: "(nat \<times> UsbDeviceDescriptorInfo) list"

text \<open>The constructor opens the device; \<open>THROW_IF_WIN32_ERROR_MSG\<close> throws when the
  handle is invalid and the error code is not zero.\<close>

definition UsbHub_new :: "world \<Rightarrow> wstring \<Rightarrow> error + UsbHub" where
  "UsbHub_new w name =
     (let (k, err) = CreateFileW w name in
      if \<not> hFile_valid k \<and> err \<noteq> 0 then Inl (ResultException err)
      else Inr \<lparr>hubName = name, numberOfPorts = 0, pDeviceCommunication = k,
                hubPortConnectorProperties = Map.empty, hubPortConnectionInfo = Map.empty,
                portUsbConfigurationDescriptor = [], usbDeviceDescriptionInfo = []\<rparr>)"

definition PopulateInfo :: "UsbHub \<Rightarrow> error + UsbHub" where
  "PopulateInfo hub =
     (let k = pDeviceCommunication hub in
      case GetUsbHubNodeInformation k of
        Inl e \<Rightarrow> Inl e
      | Inr nodeInfo \<Rightarrow>
          (case GetUsbHubNodeInformationEx k of
             Inl e \<Rightarrow> Inl e
           | Inr nodeInfoEx \<Rightarrow>
               (case GetUsbHubNodeCapabilitiesEx k of
                  Inl e \<Rightarrow> Inl e
                | Inr hubCapabilityEx \<Rightarrow>
                    (let n = ucast (numbersOfPorts nodeInfo) in
                     case EnumeratePorts k n (hubPortConnectorProperties hub) of
                       Inl e \<Rightarrow> Inl e
                     | Inr props \<Rightarrow>
                         (case EnumeratePortsConnectionInfo k n (hubPortConnectionInfo hub) of
                            Inl e \<Rightarrow> Inl e
                          | Inr conns \<Rightarrow>
                              Inr (hub\<lparr>numberOfPorts := n,
                                       hubPortConnectorProperties := props,
                                       hubPortConnectionInfo := conns\<rparr>))))))"

text \<open>The entries of the connection map in key order; its keys lie between 1 and the
  port count.\<close>

definition GetPortConnectionInfo :: "UsbHub \<Rightarrow> (nat \<times> HubConnectionInfo) list" where
  "GetPortConnectionInfo hub =
     List.map_filter (\<lambda>p. map_option (Pair p) (hubPortConnectionInfo hub p))
       [1..<Suc (unat (numberOfPorts hub))]"

text \<open>
  \<open>GetAllStringDescriptors\<close>.  The language is the first entry of the language list
  of string descriptor 0, or 0x0409 when the device has none.  A string that cannot be
  fetched stays empty; an exception of \<open>GetStringDescriptor\<close> is not caught.
  \<open>SetUsbDeviceInfo\<close> stores the three strings.
\<close>

definition GetAllStringDescriptors ::
  "kernel \<Rightarrow> 32 word \<Rightarrow> USB_DEVICE_DESCRIPTOR \<Rightarrow> UsbDeviceDescriptorInfo \<Rightarrow>
   error + UsbDeviceDescriptorInfo" where
  "GetAllStringDescriptors k ConnectionIndex DeviceDesc DeviceInfo =
     (case GetStringDescriptor k ConnectionIndex 0 0 of
        Inl e \<Rightarrow> Inl e
      | Inr supportedLanguagesString \<Rightarrow>
          let languageID0 = (case supportedLanguagesString of
                               None \<Rightarrow> 0x0409
                             | Some node \<Rightarrow> node_unit node 2)
          in
          case (if bDeviceClass DeviceDesc \<noteq> 0
                then GetStringDescriptor k ConnectionIndex (bDeviceClass DeviceDesc) languageID0
                else Inr None) of
            Inl e \<Rightarrow> Inl e
          | Inr classNode \<Rightarrow>
              (case (if iManufacturer DeviceDesc \<noteq> 0
                     then GetStringDescriptor k ConnectionIndex (iManufacturer DeviceDesc) languageID0
                     else Inr None) of
                 Inl e \<Rightarrow> Inl e
               | Inr manufacturerNode \<Rightarrow>
                   (case (if iProduct DeviceDesc \<noteq> 0
                          then GetStringDescriptor k ConnectionIndex (iProduct DeviceDesc) languageID0
                          else Inr None) of
                      Inl e \<Rightarrow> Inl e
                    | Inr productNode \<Rightarrow>
                        (case (if iSerialNumber DeviceDesc \<noteq> 0
                               then GetStringDescriptor k ConnectionIndex
                                      (iSerialNumber DeviceDesc) languageID0
                               else Inr None) of
                           Inl e \<Rightarrow> Inl e
                         | Inr serialNode \<Rightarrow>
                             Inr (DeviceInfo
                               \<lparr>manufacturer :=
                                  (case manufacturerNode of None \<Rightarrow> [] | Some node \<Rightarrow> bString node),
                                product :=
                                  (case productNode of None \<Rightarrow> [] | Some node \<Rightarrow> bString node),
                                serialNumber :=
                                  (case serialNode of None \<Rightarrow> [] | Some node \<Rightarrow> bString node)\<rparr>)))))"

text \<open>
  The search of \<open>FillConfigDescriptor\<close> for the first interface descriptor.  Its loop
  condition does not reject a zero \<open>bLength\<close>, so it need not terminate: \<open>None\<close> is a
  search that never returns, \<open>Some None\<close> one that ends without an interface descriptor.
\<close>

partial_function (option) FillConfigDescriptor_walk ::
  "memory \<Rightarrow> nat \<Rightarrow> nat \<Rightarrow> 8 word option option" where
  "FillConfigDescriptor_walk m descEnd commonDesc =
     (if commonDesc + sizeof_USB_COMMON_DESCRIPTOR < descEnd \<and>
         commonDesc + bLength m commonDesc \<le> descEnd
      then
        (if bDescriptorType m commonDesc = USB_INTERFACE_DESCRIPTOR_TYPE
         then Some (Some (bInterfaceClass m commonDesc))
         else FillConfigDescriptor_walk m descEnd (commonDesc + bLength m commonDesc))
      else Some None)"

declare FillConfigDescriptor_walk.simps [code]

text \<open>
  \<open>FillConfigDescriptor\<close> always asks for configuration descriptor 0.  When there is
  none it changes nothing and returns; otherwise it stores the descriptor and the
  descriptor information under the connection index.  It throws what
  \<open>GetConfigDescriptor\<close> or \<open>GetStringDescriptor\<close> throw.
\<close>

definition FillConfigDescriptor ::
  "UsbHub \<Rightarrow> USB_DEVICE_DESCRIPTOR \<Rightarrow> 32 word \<Rightarrow> 8 word \<Rightarrow> (error + UsbHub) option" where
  "FillConfigDescriptor hub UsbDeviceDescriptor ConnectionIndex DescriptorIndex =
     (case GetConfigDescriptor (pDeviceCommunication hub) ConnectionIndex 0 of
        Inl e \<Rightarrow> Some (Inl e)
      | Inr None \<Rightarrow> Some (Inr hub)
      | Inr (Some configDesc) \<Rightarrow>
          (case FillConfigDescriptor_walk configDesc (wTotalLength configDesc)
                  (bLength configDesc 0) of
             None \<Rightarrow> None
           | Some firstInterfaceClass \<Rightarrow>
               (let info0 = \<lparr>manufacturer = [], product = [], serialNumber = [],
                              interfaceClass = firstInterfaceClass\<rparr>
                in case AreUsbDescriptorsCorrect UsbDeviceDescriptor configDesc of
                     None \<Rightarrow> None
                   | Some usable \<Rightarrow>
                       (case (if usable
                              then GetAllStringDescriptors (pDeviceCommunication hub)
                                     ConnectionIndex UsbDeviceDescriptor info0
                              else Inr info0) of
                          Inl e \<Rightarrow> Some (Inl e)
                        | Inr info \<Rightarrow>
                            Some (Inr (hub
                              \<lparr>portUsbConfigurationDescriptor :=
                                 emplace (portUsbConfigurationDescriptor hub)
                                   (unat ConnectionIndex) configDesc,
                               usbDeviceDescriptionInfo :=
                                 emplace (usbDeviceDescriptionInfo hub)
                                   (unat ConnectionIndex) info\<rparr>))))))"

subsection \<open>String helpers\<close>

text \<open>\<open>swprintf_s\<close> with \<open>%04X\<close>: four upper-case hexadecimal digits.\<close>

definition hexdigit :: "16 word \<Rightarrow> 16 word" where
  "hexdigit d = of_char
     (if d = 0 then CHR ''0'' else if d = 1 then CHR ''1'' else if d = 2 then CHR ''2''
      else if d = 3 then CHR ''3'' else if d = 4 then CHR ''4'' else if d = 5 then CHR ''5''
      else if d = 6 then CHR ''6'' else if d = 7 then CHR ''7'' else if d = 8 then CHR ''8''
      else if d = 9 then CHR ''9'' else if d = 10 then CHR ''A'' else if d = 11 then CHR ''B''
      else if d = 12 then CHR ''C'' else if d = 13 then CHR ''D'' else if d = 14 then CHR ''E''
      else CHR ''F'')"

definition hex4 :: "16 word \<Rightarrow> wstring" where
  "hex4 x = [hexdigit (drop_bit 12 x AND 15), hexdigit (drop_bit 8 x AND 15),
             hexdigit (drop_bit 4 x AND 15), hexdigit (x AND 15)]"

definition BuildVidPidPattern :: "16 word \<Rightarrow> 16 word \<Rightarrow> wstring" where
  "BuildVidPidPattern vendorId productId =
     L ''VID_'' @ hex4 vendorId @ L ''&PID_'' @ hex4 productId"

text \<open>\<open>haystack.find(needle) != npos\<close>.\<close>

fun wfind :: "'a list \<Rightarrow> 'a list \<Rightarrow> bool" where
  "wfind [] needle = (needle = [])"
| "wfind (c # cs) needle = (take (length needle) (c # cs) = needle \<or> wfind cs needle)"

definition ContainsIgnoreCase :: "world \<Rightarrow> wstring \<Rightarrow> wstring \<Rightarrow> bool" where
  "ContainsIgnoreCase w haystack needle =
     (if needle = [] then True
      else if haystack = [] then False
      else wfind (map (towupper w) haystack) (map (towupper w) needle))"

subsection \<open>EnumeratePortsFromRootHub\<close>

text \<open>
  The state of one call: the hub, the four port-metadata maps and the manager's device
  list.  A call either does not return (\<open>None\<close>), throws (the exception together with
  the device list as it is then), or returns.
\<close>

record hub_pass =
  usbHub :: UsbHub
  deviceClassMap :: "nat \<rightharpoonup> 8 word"
  vendorIdMap :: "nat \<rightharpoonup> 16 word"
  productIdMap :: "nat \<rightharpoonup> 16 word"
  setupClassGuidMap :: "nat \<rightharpoonup> GUID"
  devicesList :: "DeviceResultantInfo list"

type_synonym 'a outcome = "(error \<times> DeviceResultantInfo list + 'a) option"

text \<open>The scan of the registry records for one port: the class GUIDs of the records
  whose hardware id contains the pattern, and the last of them whose driver key is
  the port's.\<close>

fun matchDevices ::
  "wstring \<Rightarrow> wstring \<Rightarrow> DevInfoData list \<Rightarrow> GUID list \<times> DevInfoData option \<Rightarrow>
   GUID list \<times> DevInfoData option" where
  "matchDevices vidPidPattern portKey [] acc = acc"
| "matchDevices vidPidPattern portKey (device # rest) (matchedGuids, usbBusLayerDevice) =
     (if hardwareId device = [] \<or> \<not> wfind (hardwareId device) vidPidPattern
      then matchDevices vidPidPattern portKey rest (matchedGuids, usbBusLayerDevice)
      else matchDevices vidPidPattern portKey rest
             (matchedGuids @ [classGuid device],
              if dev_driverKeyName device \<noteq> [] \<and> portKey = dev_driverKeyName device
              then Some device else usbBusLayerDevice))"

definition selectBestGuid :: "GUID list \<Rightarrow> GUID" where
  "selectBestGuid matchedGuids =
     (if length matchedGuids > 1 then
        (case filter (\<lambda>guid. guid \<noteq> GUID_DEVINTERFACE_USB_DEVICE) matchedGuids of
           [] \<Rightarrow> hd matchedGuids
         | guid # others \<Rightarrow> guid)
      else hd matchedGuids)"

text \<open>One iteration of the loop over the ports.  \<open>recurse\<close> is the recursive call of
  \<open>EnumeratePortsFromRootHub\<close> on a child hub.  Nothing in the iteration catches an
  exception.\<close>

definition processConnectedPort ::
  "(wstring \<Rightarrow> DeviceResultantInfo list \<Rightarrow> (DeviceResultantInfo list) outcome) \<Rightarrow>
   world \<Rightarrow> DevInfoData list \<Rightarrow> nat \<times> HubConnectionInfo \<Rightarrow> hub_pass \<Rightarrow> hub_pass outcome" where
  "processConnectedPort recurse w allDevices entry st =
     (let portNumber = fst entry; connectionInfo = snd entry in
      if connectionStatus connectionInfo = NoDeviceConnected then Some (Inr st)
      else
        let descriptor = deviceDescriptor connectionInfo;
            st1 = st\<lparr>deviceClassMap := try_emplace (deviceClassMap st) portNumber (bDeviceClass descriptor),
                     vendorIdMap := try_emplace (vendorIdMap st) portNumber (idVendor descriptor),
                     productIdMap := try_emplace (productIdMap st) portNumber (idProduct descriptor)\<rparr>;
            vidPidPattern = BuildVidPidPattern (idVendor descriptor) (idProduct descriptor);
            (matchedGuids, usbBusLayerDevice) =
               matchDevices vidPidPattern (driverKeyName connectionInfo) allDevices ([], None);
            st2 = (if matchedGuids \<noteq> []
                   then st1\<lparr>setupClassGuidMap :=
                          try_emplace (setupClassGuidMap st1) portNumber (selectBestGuid matchedGuids)\<rparr>
                   else st1)
        in case usbBusLayerDevice of
             None \<Rightarrow> Some (Inr st2)
           | Some device \<Rightarrow>
               if deviceIsHub connectionInfo \<noteq> 0 then
                 (case GetDevicePath device of
                    Inl e \<Rightarrow> Some (Inl (e, devicesList st2))
                  | Inr path \<Rightarrow>
                      (case recurse path (devicesList st2) of
                         None \<Rightarrow> None
                       | Some (Inl thrown) \<Rightarrow> Some (Inl thrown)
                       | Some (Inr devs) \<Rightarrow> Some (Inr (st2\<lparr>devicesList := devs\<rparr>))))
               else
                 (case FillConfigDescriptor (usbHub st2) descriptor
                         (connectionIndex connectionInfo) 0 of
                    None \<Rightarrow> None
                  | Some (Inl e) \<Rightarrow> Some (Inl (e, devicesList st2))
                  | Some (Inr hub) \<Rightarrow> Some (Inr (st2\<lparr>usbHub := hub\<rparr>))))"

fun processPorts ::
  "(wstring \<Rightarrow> DeviceResultantInfo list \<Rightarrow> (DeviceResultantInfo list) outcome) \<Rightarrow>
   world \<Rightarrow> DevInfoData list \<Rightarrow> (nat \<times> HubConnectionInfo) list \<Rightarrow> hub_pass \<Rightarrow> hub_pass outcome" where
  "processPorts recurse w allDevices [] st = Some (Inr st)"
| "processPorts recurse w allDevices (entry # rest) st =
     (case processConnectedPort recurse w allDevices entry st of
        None \<Rightarrow> None
      | Some (Inl thrown) \<Rightarrow> Some (Inl thrown)
      | Some (Inr st') \<Rightarrow> processPorts recurse w allDevices rest st')"

text \<open>The second loop: one \<open>DeviceResultantInfo\<close> for every port with descriptor
  information.\<close>

fun registryFallback :: "world \<Rightarrow> wstring \<Rightarrow> DevInfoData list \<Rightarrow> wstring option" where
  "registryFallback w pattern [] = None"
| "registryFallback w pattern (device # rest) =
     (if ContainsIgnoreCase w (hardwareId device) pattern \<and> deviceDescription device \<noteq> []
      then Some (deviceDescription device)
      else registryFallback w pattern rest)"

fun findFunctionalGuid :: "wstring \<Rightarrow> DevInfoData list \<Rightarrow> GUID option" where
  "findFunctionalGuid productName [] = None"
| "findFunctionalGuid productName (device # rest) =
     (if deviceDescription device \<noteq> [] \<and> wfind (deviceDescription device) productName
      then Some (classGuid device)
      else findFunctionalGuid productName rest)"

definition buildDeviceResultantInfo ::
  "world \<Rightarrow> DevInfoData list \<Rightarrow> nat \<times> UsbDeviceDescriptorInfo \<Rightarrow> hub_pass \<Rightarrow> hub_pass" where
  "buildDeviceResultantInfo w allDevices entry st =
     (let portNum = fst entry; deviceDescInfo = snd entry;
          r0 = default_DeviceResultantInfo
                 \<lparr>res_manufacturer := manufacturer deviceDescInfo, res_product := product deviceDescInfo\<rparr>;
          r1 = (if res_manufacturer r0 = [] \<and> res_product r0 = [] then
                  (case vendorIdMap st portNum of
                     None \<Rightarrow> r0
                   | Some vendor \<Rightarrow>
                       (case productIdMap st portNum of
                          None \<Rightarrow> r0
                        | Some pid \<Rightarrow>
                            (case registryFallback w (BuildVidPidPattern vendor pid) allDevices of
                               None \<Rightarrow> r0
                             | Some deviceDesc \<Rightarrow> r0\<lparr>res_product := deviceDesc\<rparr>)))
                else r0);
          productName = (if product deviceDescInfo = [] \<and> res_product r1 \<noteq> []
                         then res_product r1 else product deviceDescInfo);
          guids = (if productName \<noteq> [] then
                     (case findFunctionalGuid productName allDevices of
                        None \<Rightarrow> setupClassGuidMap st
                      | Some functionalGuid \<Rightarrow> (setupClassGuidMap st)(portNum \<mapsto> functionalGuid))
                   else setupClassGuidMap st);
          r2 = r1\<lparr>res_serialNumber := serialNumber deviceDescInfo\<rparr>;
          r3 = (if GetInterfaceClass deviceDescInfo \<noteq> 0xFF
                then r2\<lparr>res_interfaceClass := GetInterfaceClass deviceDescInfo\<rparr> else r2);
          r4 = (case deviceClassMap st portNum of
                  Some c \<Rightarrow> r3\<lparr>res_deviceClass := c\<rparr>
                | None \<Rightarrow> r3\<lparr>res_deviceClass := 0\<rparr>);
          r5 = (case vendorIdMap st portNum of
                  Some vendor \<Rightarrow> r4\<lparr>res_vendorId := ucast vendor,
                                     res_vendorName := GetVendorStringById w vendor\<rparr>
                | None \<Rightarrow> r4);
          r6 = (case productIdMap st portNum of
                  Some pid \<Rightarrow> r5\<lparr>res_productId := ucast pid\<rparr>
                | None \<Rightarrow> r5);
          r7 = (if res_interfaceClass r6 \<noteq> 0xFF
                then r6\<lparr>res_interfaceClassName := GetUsbClassNameByDescId w (res_interfaceClass r6)\<rparr>
                else if res_deviceClass r6 \<noteq> 0
                then r6\<lparr>res_interfaceClassName := GetUsbClassNameByDescId w (res_deviceClass r6)\<rparr>
                else r6);
          r8 = (case guids portNum of
                  Some guid \<Rightarrow> r7\<lparr>res_setupClassGuid := guid\<rparr>
                | None \<Rightarrow> r7);
          r9 = r8\<lparr>res_isConnected := True, res_isUsbDevice := True\<rparr>
      in st\<lparr>setupClassGuidMap := guids, devicesList := devicesList st @ [r9]\<rparr>)"

text \<open>The state at the start of the loop over the ports: the populated hub, empty
  metadata maps and the device list so far.\<close>

definition new_hub_pass :: "UsbHub \<Rightarrow> DeviceResultantInfo list \<Rightarrow> hub_pass" where
  "new_hub_pass hub devs =
     \<lparr>usbHub = hub, deviceClassMap = Map.empty, vendorIdMap = Map.empty,
      productIdMap = Map.empty, setupClassGuidMap = Map.empty, devicesList = devs\<rparr>"

text \<open>
  The body of \<open>EnumeratePortsFromRootHub\<close>, with the recursive call as a parameter.
  The recursion follows the hub tree the devices report and has no depth bound, so the
  function itself takes the number of nested calls it may make: with none left it does
  not return.
\<close>

definition EnumeratePortsFromRootHub_body ::
  "(wstring \<Rightarrow> DeviceResultantInfo list \<Rightarrow> (DeviceResultantInfo list) outcome) \<Rightarrow>
   world \<Rightarrow> DevInfoData list \<Rightarrow> wstring \<Rightarrow> DeviceResultantInfo list \<Rightarrow>
   (DeviceResultantInfo list) outcome" where
  "EnumeratePortsFromRootHub_body recurse w allDevices name devs =
     (case UsbHub_new w name of
        Inl e \<Rightarrow> Some (Inl (e, devs))
      | Inr hub0 \<Rightarrow>
          (case PopulateInfo hub0 of
             Inl e \<Rightarrow> Some (Inl (e, devs))
           | Inr hub \<Rightarrow>
               (case processPorts recurse w allDevices (GetPortConnectionInfo hub)
                       (new_hub_pass hub devs) of
                  None \<Rightarrow> None
                | Some (Inl thrown) \<Rightarrow> Some (Inl thrown)
                | Some (Inr st) \<Rightarrow>
                    Some (Inr (devicesList
                      (fold (buildDeviceResultantInfo w allDevices)
                         (usbDeviceDescriptionInfo (usbHub st)) st))))))"

primrec EnumeratePortsFromRootHub ::
  "nat \<Rightarrow> world \<Rightarrow> DevInfoData list \<Rightarrow> wstring \<Rightarrow> DeviceResultantInfo list \<Rightarrow>
   (DeviceResultantInfo list) outcome" where
  "EnumeratePortsFromRootHub 0 w allDevices = (\<lambda>name devs. None)"
| "EnumeratePortsFromRootHub (Suc depth) w allDevices =
     EnumeratePortsFromRootHub_body (EnumeratePortsFromRootHub depth w allDevices) w allDevices"

fun EnumerateUsbDevices_loop ::
  "nat \<Rightarrow> world \<Rightarrow> DevInfoData list \<Rightarrow> (error + wstring) list \<Rightarrow> DeviceResultantInfo list \<Rightarrow>
   (DeviceResultantInfo list) outcome" where
  "EnumerateUsbDevices_loop depth w allUsbDevices [] devs = Some (Inr devs)"
| "EnumerateUsbDevices_loop depth w allUsbDevices (controller # rest) devs =
     (case controller of
        Inl e \<Rightarrow> Some (Inl (e, devs))
      | Inr rootHubName \<Rightarrow>
          (case EnumeratePortsFromRootHub depth w allUsbDevices
                  (L [CHR 0x5C, CHR 0x5C, CHR ''.'', CHR 0x5C] @ rootHubName) devs of
             None \<Rightarrow> None
           | Some (Inl thrown) \<Rightarrow> Some (Inl thrown)
           | Some (Inr devs') \<Rightarrow> EnumerateUsbDevices_loop depth w allUsbDevices rest devs'))"

definition EnumerateUsbDevices ::
  "nat \<Rightarrow> world \<Rightarrow> DeviceResultantInfo list \<Rightarrow> (DeviceResultantInfo list) outcome" where
  "EnumerateUsbDevices depth w devs =
     (case usbDeviceInstances w of
        Inl e \<Rightarrow> Some (Inl (e, []))
      | Inr allUsbDevices \<Rightarrow>
          (case controllerInstances w of
             Inl e \<Rightarrow> Some (Inl (e, []))
           | Inr controllers \<Rightarrow> EnumerateUsbDevices_loop depth w allUsbDevices controllers []))"

subsection \<open>Sample topology\<close>

text \<open>
  A root hub with two ports.  Port 1 hosts an external hub, port 2 a flash drive; both
  answer the primary connection query and the driver-key query.  The flash drive
  returns a configuration descriptor of 32 bytes (one mass-storage interface with two
  endpoints), a language list and three strings.
\<close>

definition external_hub_descriptor :: USB_DEVICE_DESCRIPTOR where
  "external_hub_descriptor =
     zero_device_descriptor\<lparr>dev_bLength := 18, dev_bDescriptorType := 1, bcdUSB := 0x0200,
       bDeviceClass := 9, idVendor := 0x05E3, idProduct := 0x0608, bNumConfigurations := 1\<rparr>"

definition flash_drive_descriptor :: USB_DEVICE_DESCRIPTOR where
  "flash_drive_descriptor =
     zero_device_descriptor\<lparr>dev_bLength := 18, dev_bDescriptorType := 1, bcdUSB := 0x0300,
       idVendor := 0x0951, idProduct := 0x172B, iManufacturer := 1, iProduct := 2,
       iSerialNumber := 3, bNumConfigurations := 1\<rparr>"

definition flash_drive_config :: "8 word list" where
  "flash_drive_config =
     [9, 2, 32, 0, 1, 1, 0, 0x80, 50,  9, 4, 0, 0, 2, 8, 6, 0x50, 0,
      7, 5, 0x81, 2, 0, 2, 0,  7, 5, 2, 2, 0, 2, 0]"

definition string_descriptor :: "wstring \<Rightarrow> 8 word list" where
  "string_descriptor s =
     [of_nat (2 + 2 * length s), 3] @ concat (map (\<lambda>u. [ucast u, ucast (drop_bit 8 u)]) s)"

definition flash_drive_answer :: "16 word \<Rightarrow> nat \<Rightarrow> memory ioctl" where
  "flash_drive_answer wValue n =
     (if wValue = 0x0200 then completed_ioctl n (mem_of flash_drive_config)
      else if wValue = 0x0300 then completed_ioctl 16 (mem_of [4, 3, 9, 4])
      else if wValue = 0x0301
      then completed_ioctl 30 (mem_of (string_descriptor (L ''Kingston'')))
      else if wValue = 0x0302
      then completed_ioctl 46 (mem_of (string_descriptor (L ''DataTraveler 3.0'')))
      else if wValue = 0x0303
      then completed_ioctl 22 (mem_of (string_descriptor (L ''0001'')))
      else failed_ioctl (\<lambda>a. 0))"

definition root_hub_kernel :: kernel where
  "root_hub_kernel =
     two_port_hub
       \<lparr>GET_HUB_CAPABILITIES_EX := completed_ioctl 4 \<lparr>HubIsRoot = True\<rparr>,
        GET_NODE_CONNECTION_INFORMATION_EX_V2 := (\<lambda>i. failed_ioctl zero_connection_v2),
        GET_NODE_CONNECTION_INFORMATION_EX :=
          (\<lambda>i. if i = 1
               then completed_ioctl 35 (zero_connection_ex
                      \<lparr>ex_ConnectionIndex := 1, ex_DeviceDescriptor := external_hub_descriptor,
                       ex_Speed := UsbHighSpeed, ex_DeviceIsHub := 1, ex_DeviceAddress := 1,
                       ex_ConnectionStatus := DeviceConnected\<rparr>)
               else if i = 2
               then completed_ioctl 35 (zero_connection_ex
                      \<lparr>ex_ConnectionIndex := 2, ex_DeviceDescriptor := flash_drive_descriptor,
                       ex_Speed := UsbSuperSpeed, ex_DeviceAddress := 2,
                       ex_ConnectionStatus := DeviceConnected\<rparr>)
               else failed_ioctl zero_connection_ex),
        GET_NODE_CONNECTION_DRIVERKEY_NAME :=
          (\<lambda>i n. if n = sizeof_USB_NODE_CONNECTION_NAME
                 then completed_ioctl n (zero_name\<lparr>ActualLength := 30\<rparr>)
                 else completed_ioctl n
                        (zero_name\<lparr>ActualLength := 30,
                                   Name := (if i = 1 then L ''HUB0001'' else L ''DISK0002'')\<rparr>)),
        GET_DESCRIPTOR_FROM_NODE_CONNECTION :=
          (\<lambda>i wValue wIndex n. if i = 2 then flash_drive_answer wValue n
                               else failed_ioctl (\<lambda>a. 0))\<rparr>"

text \<open>The external hub: one port, nothing attached.\<close>

definition child_hub_kernel :: kernel where
  "child_hub_kernel =
     two_port_hub
       \<lparr>GET_NODE_INFORMATION := completed_ioctl 76 \<lparr>NodeType = 0, bNumberOfPorts = 1\<rparr>,
        GET_HUB_CAPABILITIES_EX := completed_ioctl 4 \<lparr>HubIsRoot = False\<rparr>,
        GET_NODE_CONNECTION_INFORMATION_EX_V2 := (\<lambda>i. failed_ioctl zero_connection_v2),
        GET_NODE_CONNECTION_INFORMATION_EX := (\<lambda>i. completed_ioctl 35 zero_connection_ex)\<rparr>"

definition hub_record :: DevInfoData where
  "hub_record =
     \<lparr>hardwareId = L ''USB/VID_05E3&PID_0608'', dev_driverKeyName = L ''HUB0001'',
      classGuid = ''{36FC9E60-C465-11CF-8056-444553540000}'',
      deviceDescription = L ''Generic USB Hub'', GetDevicePath = Inr (L ''CHILD'')\<rparr>"

definition disk_record :: DevInfoData where
  "disk_record =
     \<lparr>hardwareId = L ''USB/VID_0951&PID_172B'', dev_driverKeyName = L ''DISK0002'',
      classGuid = ''{36FC9E60-C465-11CF-8056-444553540000}'',
      deviceDescription = L ''USB Mass Storage Device'',
      GetDevicePath = Inl (ResultException 259)\<rparr>"

definition root_hub_path :: wstring where
  "root_hub_path = L [CHR 0x5C, CHR 0x5C, CHR ''.'', CHR 0x5C] @ L ''ROOT''"

text \<open>
  The surroundings in which the external hub cannot be opened (access denied, error
  code 5), and those in which it can.
\<close>

definition world_child_unreachable :: world where
  "world_child_unreachable =
     \<lparr>CreateFileW = (\<lambda>path. if path = root_hub_path then (root_hub_kernel, 0) else (closed_hub, 5)),
      GetVendorStringById = (\<lambda>v. L ''Kingston Technology''),
      GetUsbClassNameByDescId = (\<lambda>c. L ''Mass Storage''),
      towupper = (\<lambda>c. if 97 \<le> c \<and> c \<le> 122 then c - 32 else c),
      usbDeviceInstances = Inr [hub_record, disk_record],
      controllerInstances = Inr [Inr (L ''ROOT'')]\<rparr>"

definition world_child_reachable :: world where
  "world_child_reachable =
     world_child_unreachable
       \<lparr>CreateFileW := (\<lambda>path. if path = root_hub_path then (root_hub_kernel, 0)
                             else if path = L ''CHILD'' then (child_hub_kernel, 0)
                             else (closed_hub, 5))\<rparr>"

text \<open>The same root hub when the flash drive answers no descriptor request.\<close>

definition world_silent_drive :: world where
  "world_silent_drive =
     world_child_reachable
       \<lparr>CreateFileW := (\<lambda>path.
          if path = root_hub_path
          then (root_hub_kernel\<lparr>GET_DESCRIPTOR_FROM_NODE_CONNECTION :=
                  (\<lambda>i wValue wIndex n. failed_ioctl (\<lambda>a. 0))\<rparr>, 0)
          else if path = L ''CHILD'' then (child_hub_kernel, 0)
          else (closed_hub, 5))\<rparr>"

text \<open>The root hub as the constructor leaves it, and as populated.\<close>

definition sample_root_hub_opened :: UsbHub where
  "sample_root_hub_opened =
     \<lparr>hubName = root_hub_path, numberOfPorts = 0, pDeviceCommunication = root_hub_kernel,
      hubPortConnectorProperties = Map.empty, hubPortConnectionInfo = Map.empty,
      portUsbConfigurationDescriptor = [], usbDeviceDescriptionInfo = []\<rparr>"

definition sample_root_hub :: UsbHub where
  "sample_root_hub =
     (case PopulateInfo sample_root_hub_opened of
        Inr hub \<Rightarrow> hub | Inl e \<Rightarrow> sample_root_hub_opened)"

text \<open>The two entries of the populated root hub's connection map.\<close>

definition hub_port_entry :: HubConnectionInfo where
  "hub_port_entry =
     default_HubConnectionInfo
       \<lparr>connectionIndex := 1, deviceDescriptor := external_hub_descriptor,
        speed := UsbHighSpeed, deviceIsHub := 1, deviceAddress := 1,
        connectionStatus := DeviceConnected, driverKeyName := L ''HUB0001''\<rparr>"

definition disk_port_entry :: HubConnectionInfo where
  "disk_port_entry =
     default_HubConnectionInfo
       \<lparr>connectionIndex := 2, deviceDescriptor := flash_drive_descriptor,
        speed := UsbSuperSpeed, deviceAddress := 2,
        connectionStatus := DeviceConnected, driverKeyName := L ''DISK0002''\<rparr>"

section \<open>Properties of the descriptor parser\<close>

text \<open>
  Claim C6.  Every parser entry point terminates on every buffer: the walks above are
  total functions, their recursion decreasing the distance to \<open>descEnd\<close>.  The second
  half of the claim, that no byte at or past \<open>wTotalLength\<close> is read, fails for
  \<open>ExtractInterfaceClass\<close>: \<open>IsDescriptorInBounds\<close> only guarantees the \<open>bLength\<close> bytes
  the descriptor declares, and \<open>bInterfaceClass\<close> is read at offset 5 of a descriptor
  that may declare two bytes.  On a configuration of total length 11 the byte at
  offset 14 is read and returned as the interface class.
\<close>

theorem ExtractInterfaceClass_reads_past_end:
  "wTotalLength truncated_interface_config = 11 \<and>
   ExtractInterfaceClass (Some truncated_interface_config) =
     ([0, 1, 2, 3, 2, 3, 0, 9, 10, 14], Some 0)"
  by code_simp

lemma IsDescriptorInBounds_zero: "bLength m p = 0 \<Longrightarrow> snd (IsDescriptorInBounds m p e) = False"
  by (simp add: IsDescriptorInBounds_def)

lemma walk_zero: "bLength m p = 0 \<Longrightarrow> snd (ExtractInterfaceClass_walk m e p) = None"
  by (subst ExtractInterfaceClass_walk.simps) (simp add: IsDescriptorInBounds_def)

lemma walk_reaches:
  "ExtractInterfaceClass_reaches m e p q \<Longrightarrow>
   snd (ExtractInterfaceClass_walk m e p) = snd (ExtractInterfaceClass_walk m e q)"
proof (induction rule: ExtractInterfaceClass_reaches.induct)
  case (reaches_here p)
  show ?case by simp
next
  case (reaches_next p q)
  from reaches_next.hyps(1) obtain rd where ib: "IsDescriptorInBounds m p e = (rd, True)"
    by (cases "IsDescriptorInBounds m p e") auto
  have "snd (ExtractInterfaceClass_walk m e p) = snd (ExtractInterfaceClass_walk m e (p + bLength m p))"
    using ib reaches_next.hyps(2)
    by (subst ExtractInterfaceClass_walk.simps) (simp split: prod.splits)
  with reaches_next.IH show ?case by simp
qed

text \<open>
  Claim C7, as amended.  When the loop of \<open>ExtractInterfaceClass\<close> reaches a
  sub-descriptor whose \<open>bLength\<close> is 0, that is, when no interface descriptor precedes
  it in the chain, \<open>IsDescriptorInBounds\<close> rejects it, the loop ends there and the
  result is "not found".
\<close>

theorem ExtractInterfaceClass_zero_length:
  assumes "snd (ValidateConfigurationDescriptor (Some m))"
      and "ExtractInterfaceClass_reaches m (wTotalLength m) (bLength m 0) q"
      and "bLength m q = 0"
    shows "\<not> snd (IsDescriptorInBounds m q (wTotalLength m)) \<and>
           snd (ExtractInterfaceClass (Some m)) = None"
proof -
  have "snd (ExtractInterfaceClass_walk m (wTotalLength m) (bLength m 0)) = None"
    using walk_reaches [OF assms(2)] walk_zero [OF assms(3)] by simp
  then obtain rd' where w: "ExtractInterfaceClass_walk m (wTotalLength m) (bLength m 0) = (rd', None)"
    by (cases "ExtractInterfaceClass_walk m (wTotalLength m) (bLength m 0)") auto
  obtain rd where v: "ValidateConfigurationDescriptor (Some m) = (rd, True)"
    using assms(1) by (cases "ValidateConfigurationDescriptor (Some m)") auto
  have "snd (ExtractInterfaceClass (Some m)) = None"
    by (simp add: ExtractInterfaceClass_def v w)
  then show ?thesis using IsDescriptorInBounds_zero [OF assms(3)] by simp
qed

theorem ExtractInterfaceClass_zero_length_witness:
  "snd (ValidateConfigurationDescriptor (Some endpoint_then_zero_config)) \<and>
   ExtractInterfaceClass_reaches endpoint_then_zero_config (wTotalLength endpoint_then_zero_config)
     (bLength endpoint_then_zero_config 0) 16 \<and>
   bLength endpoint_then_zero_config 16 = 0 \<and>
   \<not> snd (IsDescriptorInBounds endpoint_then_zero_config 16 (wTotalLength endpoint_then_zero_config)) \<and>
   snd (ExtractInterfaceClass (Some endpoint_then_zero_config)) = None"
proof -
  have 1: "wTotalLength endpoint_then_zero_config = 18" by code_simp
  have 2: "bLength endpoint_then_zero_config 0 = 9" by code_simp
  have 3: "snd (IsDescriptorInBounds endpoint_then_zero_config 9 18)" by code_simp
  have 4: "bLength endpoint_then_zero_config 9 = 7" by code_simp
  have 5: "bDescriptorType endpoint_then_zero_config 9 \<noteq> USB_INTERFACE_DESCRIPTOR_TYPE" by code_simp
  have "ExtractInterfaceClass_reaches endpoint_then_zero_config 18 (9 + bLength endpoint_then_zero_config 9) 16"
    unfolding 4 by (simp add: reaches_here)
  with 3 5 have "ExtractInterfaceClass_reaches endpoint_then_zero_config 18 9 16" by (rule reaches_next)
  then have h2: "ExtractInterfaceClass_reaches endpoint_then_zero_config (wTotalLength endpoint_then_zero_config)
     (bLength endpoint_then_zero_config 0) 16" by (simp add: 1 2)
  have h1: "snd (ValidateConfigurationDescriptor (Some endpoint_then_zero_config))" by code_simp
  have h3: "bLength endpoint_then_zero_config 16 = 0" by code_simp
  from ExtractInterfaceClass_zero_length [OF h1 h2 h3] h1 h2 h3 show ?thesis by simp
qed

text \<open>
  The claim as stated, for every chain that contains a zero-length sub-descriptor, does
  not hold: an interface descriptor in front of the zero-length one ends the walk
  first, and its class is returned.
\<close>

theorem ExtractInterfaceClass_zero_length_counterexample:
  "chain interface_then_zero_config (wTotalLength interface_then_zero_config)
     (bLength interface_then_zero_config 0) 18 \<and>
   bLength interface_then_zero_config 18 = 0 \<and>
   snd (ExtractInterfaceClass (Some interface_then_zero_config)) = Some 8"
proof -
  have 1: "wTotalLength interface_then_zero_config = 20" by code_simp
  have 2: "bLength interface_then_zero_config 0 = 9" by code_simp
  have 3: "snd (IsDescriptorInBounds interface_then_zero_config 9 20)" by code_simp
  have 4: "bLength interface_then_zero_config 9 = 9" by code_simp
  have "chain interface_then_zero_config 20 (9 + bLength interface_then_zero_config 9) 18"
    unfolding 4 by (simp add: chain_here)
  with 3 have 5: "chain interface_then_zero_config 20 9 18" by (rule chain_next)
  have 6: "bLength interface_then_zero_config 18 = 0" by code_simp
  have 7: "snd (ExtractInterfaceClass (Some interface_then_zero_config)) = Some 8" by code_simp
  show ?thesis using 5 6 7 by (simp add: 1 2)
qed

section \<open>Properties of AreUsbDescriptorsCorrect\<close>

lemma AreUsbDescriptorsCorrect_walk_step:
  "AreUsbDescriptorsCorrect_walk m e p =
     (case AreUsbDescriptorsCorrect_verdict m e p of
        Some b \<Rightarrow> Some b
      | None \<Rightarrow> AreUsbDescriptorsCorrect_walk m e (p + bLength m p))"
  by (subst AreUsbDescriptorsCorrect_walk.simps) (simp add: AreUsbDescriptorsCorrect_verdict_def)

lemma AreUsbDescriptorsCorrect_walk_skips:
  "AreUsbDescriptorsCorrect_skips m e p q \<Longrightarrow>
   AreUsbDescriptorsCorrect_walk m e p = AreUsbDescriptorsCorrect_walk m e q"
proof (induction rule: AreUsbDescriptorsCorrect_skips.induct)
  case (skips_here p)
  show ?case by simp
next
  case (skips_next p q)
  have "AreUsbDescriptorsCorrect_walk m e p = AreUsbDescriptorsCorrect_walk m e (p + bLength m p)"
    using skips_next.hyps(1) by (subst AreUsbDescriptorsCorrect_walk_step) simp
  with skips_next.IH show ?case by simp
qed

text \<open>
  Claim C5, as amended.  For a device descriptor whose manufacturer, product and
  serial-number string indices are all zero, the walk starts at the configuration
  descriptor itself and does not stop at the first descriptor it inspects: it moves
  past every descriptor that decides nothing and returns what the first deciding
  descriptor of the chain yields, however deep in the chain that descriptor is.
\<close>

theorem AreUsbDescriptorsCorrect_first_verdict:
  assumes "iManufacturer d = 0" and "iProduct d = 0" and "iSerialNumber d = 0"
      and "AreUsbDescriptorsCorrect_skips m (wTotalLength m) 0 q"
      and "AreUsbDescriptorsCorrect_verdict m (wTotalLength m) q = Some b"
    shows "AreUsbDescriptorsCorrect d m = Some b"
proof -
  have "AreUsbDescriptorsCorrect d m = AreUsbDescriptorsCorrect_walk m (wTotalLength m) 0"
    using assms(1-3) by (simp add: AreUsbDescriptorsCorrect_def)
  also have "\<dots> = AreUsbDescriptorsCorrect_walk m (wTotalLength m) q"
    by (rule AreUsbDescriptorsCorrect_walk_skips [OF assms(4)])
  also have "\<dots> = Some b"
    using assms(5) by (subst AreUsbDescriptorsCorrect_walk_step) simp
  finally show ?thesis .
qed

theorem AreUsbDescriptorsCorrect_first_verdict_witness:
  "iManufacturer device_without_strings = 0 \<and> iProduct device_without_strings = 0 \<and>
   iSerialNumber device_without_strings = 0 \<and>
   AreUsbDescriptorsCorrect_skips (mem_of two_interfaces_second_string)
     (wTotalLength (mem_of two_interfaces_second_string)) 0 18 \<and>
   AreUsbDescriptorsCorrect_verdict (mem_of two_interfaces_second_string)
     (wTotalLength (mem_of two_interfaces_second_string)) 18 = Some True \<and>
   AreUsbDescriptorsCorrect device_without_strings (mem_of two_interfaces_second_string) = Some True"
proof -
  let ?m = "mem_of two_interfaces_second_string"
  have h1: "iManufacturer device_without_strings = 0" by (simp add: device_without_strings_def)
  have h2: "iProduct device_without_strings = 0" by (simp add: device_without_strings_def)
  have h3: "iSerialNumber device_without_strings = 0" by (simp add: device_without_strings_def)
  have t: "wTotalLength ?m = 27" by code_simp
  have v0: "AreUsbDescriptorsCorrect_verdict ?m 27 0 = None" by code_simp
  have l0: "bLength ?m 0 = 9" by code_simp
  have v9: "AreUsbDescriptorsCorrect_verdict ?m 27 9 = None" by code_simp
  have l9: "bLength ?m 9 = 9" by code_simp
  have "AreUsbDescriptorsCorrect_skips ?m 27 (9 + bLength ?m 9) 18"
    unfolding l9 by (simp add: skips_here)
  with v9 have "AreUsbDescriptorsCorrect_skips ?m 27 9 18" by (rule skips_next)
  then have "AreUsbDescriptorsCorrect_skips ?m 27 (0 + bLength ?m 0) 18"
    unfolding l0 by simp
  with v0 have "AreUsbDescriptorsCorrect_skips ?m 27 0 18" by (rule skips_next)
  then have h4: "AreUsbDescriptorsCorrect_skips ?m (wTotalLength ?m) 0 18" by (simp add: t)
  have "AreUsbDescriptorsCorrect_verdict ?m 27 18 = Some True" by code_simp
  then have h5: "AreUsbDescriptorsCorrect_verdict ?m (wTotalLength ?m) 18 = Some True" by (simp add: t)
  from AreUsbDescriptorsCorrect_first_verdict [OF h1 h2 h3 h4 h5] h1 h2 h3 h4 h5
  show ?thesis by simp
qed

text \<open>
  The walk is not bounded to one iteration: two configurations with the same header
  and the same first sub-descriptor get different results.
\<close>

theorem AreUsbDescriptorsCorrect_single_iteration_counterexample:
  "iManufacturer device_without_strings = 0 \<and> iProduct device_without_strings = 0 \<and>
   iSerialNumber device_without_strings = 0 \<and>
   take 18 two_interfaces_no_string = take 18 two_interfaces_second_string \<and>
   AreUsbDescriptorsCorrect device_without_strings (mem_of two_interfaces_no_string) = Some False \<and>
   AreUsbDescriptorsCorrect device_without_strings (mem_of two_interfaces_second_string) = Some True"
  by code_simp

section \<open>Properties of port enumeration\<close>

text \<open>
  What a successful \<open>EnumeratePortsConnectionInfo\<close> stores under a key: the record
  the loop body computes for that port, for the ports 1 to \<open>N\<close>, and
  nothing elsewhere.
\<close>

lemma try_emplace_absent: "m key = None \<Longrightarrow> try_emplace m key v = m(key \<mapsto> v)"
  by (simp add: try_emplace_def)

lemma EnumeratePortsConnectionInfo_loop_lookup:
  "EnumeratePortsConnectionInfo_loop k ps m0 = Inr m \<Longrightarrow> distinct ps \<Longrightarrow>
   \<forall>q\<in>set ps. m0 q = None \<Longrightarrow>
   m p = (if p \<in> set ps then (case processPort k p of Inr r \<Rightarrow> r | Inl e \<Rightarrow> None) else m0 p)"
proof (induction ps arbitrary: m0)
  case Nil
  then show ?case by simp
next
  case (Cons a ps)
  show ?case
  proof (cases "processPort k a")
    case (Inl e)
    with Cons.prems(1) show ?thesis by simp
  next
    case (Inr r)
    show ?thesis
    proof (cases r)
      case None
      with Inr Cons.prems have "EnumeratePortsConnectionInfo_loop k ps m0 = Inr m" by simp
      moreover have "distinct ps" using Cons.prems(2) by simp
      moreover have "\<forall>q\<in>set ps. m0 q = None" using Cons.prems(3) by simp
      ultimately have "m p = (if p \<in> set ps
          then (case processPort k p of Inr r \<Rightarrow> r | Inl e \<Rightarrow> None) else m0 p)"
        by (rule Cons.IH)
      then show ?thesis using Cons.prems(3) Inr None by auto
    next
      case (Some ci)
      have a: "m0 a = None" using Cons.prems(3) by simp
      with Inr Some Cons.prems(1)
      have "EnumeratePortsConnectionInfo_loop k ps (m0(a \<mapsto> ci)) = Inr m"
        by (simp add: try_emplace_absent)
      moreover have "distinct ps" using Cons.prems(2) by simp
      moreover have "\<forall>q\<in>set ps. (m0(a \<mapsto> ci)) q = None"
        using Cons.prems(2,3) by auto
      ultimately have "m p = (if p \<in> set ps
          then (case processPort k p of Inr r \<Rightarrow> r | Inl e \<Rightarrow> None) else (m0(a \<mapsto> ci)) p)"
        by (rule Cons.IH)
      then show ?thesis using Cons.prems(2) Inr Some by auto
    qed
  qed
qed

lemma EnumeratePortsConnectionInfo_loop_no_exception:
  "EnumeratePortsConnectionInfo_loop k ps m0 = Inr m \<Longrightarrow> p \<in> set ps \<Longrightarrow>
   \<exists>r. processPort k p = Inr r"
proof (induction ps arbitrary: m0)
  case Nil
  then show ?case by simp
next
  case (Cons a ps)
  then show ?case
    by (cases "processPort k a") (auto split: option.splits)
qed

lemma EnumeratePortsConnectionInfo_ports:
  assumes "EnumeratePortsConnectionInfo k n m0 = Inr m"
  shows "1 \<le> unat n \<and> unat n \<le> 255 \<and>
         EnumeratePortsConnectionInfo_loop k [1..<Suc (unat n)] Map.empty = Inr m"
proof -
  have "n \<noteq> 0" using assms by (auto simp: EnumeratePortsConnectionInfo_def)
  then have "unat n \<noteq> 0" by (simp add: unat_eq_0)
  then show ?thesis
    using assms by (auto simp: EnumeratePortsConnectionInfo_def MaxPortsPerHub_def simp del: upt_Suc split: if_splits)
qed

lemma EnumeratePortsConnectionInfo_lookup:
  assumes "EnumeratePortsConnectionInfo k n m0 = Inr m"
  shows "m p = (if 1 \<le> p \<and> p \<le> unat n
                then (case processPort k p of Inr r \<Rightarrow> r | Inl e \<Rightarrow> None) else None)"
proof -
  have l: "EnumeratePortsConnectionInfo_loop k [1..<Suc (unat n)] Map.empty = Inr m"
    using EnumeratePortsConnectionInfo_ports [OF assms] by blast
  have "m p = (if p \<in> set [1..<Suc (unat n)]
               then (case processPort k p of Inr r \<Rightarrow> r | Inl e \<Rightarrow> None) else Map.empty p)"
    by (rule EnumeratePortsConnectionInfo_loop_lookup [OF l]) (simp_all del: upt_Suc)
  then show ?thesis by (auto simp del: upt_Suc)
qed

lemma EnumeratePortsConnectionInfo_no_exception:
  assumes "EnumeratePortsConnectionInfo k n m0 = Inr m" and "1 \<le> p" and "p \<le> unat n"
  shows "\<exists>r. processPort k p = Inr r"
proof -
  have l: "EnumeratePortsConnectionInfo_loop k [1..<Suc (unat n)] Map.empty = Inr m"
    using EnumeratePortsConnectionInfo_ports [OF assms(1)] by blast
  show ?thesis by (rule EnumeratePortsConnectionInfo_loop_no_exception [OF l]) (use assms(2,3) in \<open>simp del: upt_Suc\<close>)
qed

lemma retrieveDriverKeyName_fields:
  "connectionIndex (retrieveDriverKeyName k p c info) = connectionIndex info"
  "speed (retrieveDriverKeyName k p c info) = speed info"
  "deviceAddress (retrieveDriverKeyName k p c info) = deviceAddress info"
  "numberOfOpenPipes (retrieveDriverKeyName k p c info) = numberOfOpenPipes info"
  "pipeList (retrieveDriverKeyName k p c info) = pipeList info"
  "connectionStatus (retrieveDriverKeyName k p c info) = connectionStatus info"
  by (simp_all add: retrieveDriverKeyName_def split: sum.splits)

lemma processPort_primary:
  assumes "processPort k p = Inr r" and "succeeded (GET_NODE_CONNECTION_INFORMATION_EX k (of_nat p))"
  shows "r = Some (retrieveDriverKeyName k p
            (ex_ConnectionStatus (buffer (GET_NODE_CONNECTION_INFORMATION_EX k (of_nat p))) \<noteq> NoDeviceConnected)
            (populateConnectionInfo default_HubConnectionInfo
               (buffer (GET_NODE_CONNECTION_INFORMATION_EX k (of_nat p))) p (queryConnectionInfoV2 k p)))"
  using assms by (auto simp: processPort_def Let_def split: if_splits)

lemma processPort_fallback:
  assumes "processPort k p = Inr r" and "\<not> succeeded (GET_NODE_CONNECTION_INFORMATION_EX k (of_nat p))"
  shows "r = (case queryLegacyConnectionInfo k p of
                Inr (Some legacyResult) \<Rightarrow>
                  Some (retrieveDriverKeyName k p (snd legacyResult) (fst legacyResult))
              | Inr None \<Rightarrow> None
              | Inl e \<Rightarrow> None)"
  using assms by (auto simp: processPort_def Let_def split: if_splits sum.splits option.splits)

lemma processPort_skips:
  assumes "processPort k p = Inr r"
  shows "r = None \<longleftrightarrow> \<not> succeeded (GET_NODE_CONNECTION_INFORMATION_EX k (of_nat p)) \<and>
                       \<not> succeeded (GET_NODE_CONNECTION_INFORMATION k (of_nat p))"
  using assms
  by (auto simp: processPort_def queryLegacyConnectionInfo_def Let_def
           split: if_splits sum.splits option.splits)

lemma processPort_connectionIndex:
  assumes "processPort k p = Inr (Some info)"
  shows "connectionIndex info = of_nat p"
  using assms
  by (auto simp: processPort_def queryLegacyConnectionInfo_def populateConnectionInfo_def Let_def
                 retrieveDriverKeyName_fields
           split: if_splits sum.splits option.splits)

lemma processPort_pipes:
  assumes "processPort k p = Inr (Some info)"
  shows "unat (numberOfOpenPipes info) = length (pipeList info) \<and>
         deviceAddress info =
           (if succeeded (GET_NODE_CONNECTION_INFORMATION_EX k (of_nat p))
            then ex_DeviceAddress (buffer (GET_NODE_CONNECTION_INFORMATION_EX k (of_nat p)))
            else ci_DeviceAddress (buffer (GET_NODE_CONNECTION_INFORMATION k (of_nat p))))"
  using assms
  by (auto simp: processPort_def queryLegacyConnectionInfo_def populateConnectionInfo_def Let_def
                 retrieveDriverKeyName_fields default_HubConnectionInfo_def
           split: if_splits sum.splits option.splits)

text \<open>
  Claim C1, as amended.  When \<open>EnumeratePortsConnectionInfo\<close> completes, the port
  count lies between 1 and 255 and the keys of the mapping are the ports 1 to N that
  answered the primary or the legacy connection query: a port that answers neither is
  skipped, so the mapping has at most N entries and exactly N when every port answers.
  Each entry's stored connection index equals its key.
\<close>

theorem EnumeratePortsConnectionInfo_entries:
  assumes "EnumeratePortsConnectionInfo k N m0 = Inr m"
  shows "1 \<le> unat N \<and> unat N \<le> 255 \<and>
         dom m = {p. 1 \<le> p \<and> p \<le> unat N \<and>
                     (succeeded (GET_NODE_CONNECTION_INFORMATION_EX k (of_nat p)) \<or>
                      succeeded (GET_NODE_CONNECTION_INFORMATION k (of_nat p)))} \<and>
         (\<forall>p info. m p = Some info \<longrightarrow> connectionIndex info = of_nat p \<and> unat (connectionIndex info) = p)"
proof -
  note lk = EnumeratePortsConnectionInfo_lookup [OF assms]
  have rng: "1 \<le> unat N \<and> unat N \<le> 255"
    using EnumeratePortsConnectionInfo_ports [OF assms] by blast
  have d: "p \<in> dom m \<longleftrightarrow> 1 \<le> p \<and> p \<le> unat N \<and>
                     (succeeded (GET_NODE_CONNECTION_INFORMATION_EX k (of_nat p)) \<or>
                      succeeded (GET_NODE_CONNECTION_INFORMATION k (of_nat p)))" for p
  proof (cases "1 \<le> p \<and> p \<le> unat N")
    case False
    then show ?thesis using lk [of p] by (auto simp: dom_def)
  next
    case True
    then obtain r where r: "processPort k p = Inr r"
      using EnumeratePortsConnectionInfo_no_exception [OF assms] by blast
    have "m p = r" using lk [of p] True r by simp
    then show ?thesis using processPort_skips [OF r] True by (auto simp: dom_def)
  qed
  have i: "connectionIndex info = of_nat p \<and> unat (connectionIndex info) = p" if "m p = Some info" for p info
  proof -
    have in_range: "1 \<le> p \<and> p \<le> unat N"
      using that lk [of p] by (auto split: if_splits)
    then obtain r where r: "processPort k p = Inr r"
      using EnumeratePortsConnectionInfo_no_exception [OF assms] by blast
    have "processPort k p = Inr (Some info)" using lk [of p] in_range r that by simp
    then have ci: "connectionIndex info = of_nat p" by (rule processPort_connectionIndex)
    have "p < 2 ^ 32" using in_range rng by simp
    then have "unat (of_nat p :: 32 word) = p" by (simp add: unat_of_nat)
    with ci show ?thesis by simp
  qed
  show ?thesis using rng d i by blast
qed

lemma two_port_hub_enumerated:
  "EnumeratePortsConnectionInfo two_port_hub 2 Map.empty = Inr two_port_hub_connections"
proof -
  have "isl (EnumeratePortsConnectionInfo two_port_hub 2 Map.empty) = False" by code_simp
  then show ?thesis
    by (cases "EnumeratePortsConnectionInfo two_port_hub 2 Map.empty")
       (simp_all add: two_port_hub_connections_def)
qed

lemma silent_port_hub_enumerated:
  "EnumeratePortsConnectionInfo silent_port_hub 2 Map.empty = Inr silent_port_hub_connections"
proof -
  have "isl (EnumeratePortsConnectionInfo silent_port_hub 2 Map.empty) = False" by code_simp
  then show ?thesis
    by (cases "EnumeratePortsConnectionInfo silent_port_hub 2 Map.empty")
       (simp_all add: silent_port_hub_connections_def)
qed

theorem EnumeratePortsConnectionInfo_entries_witness:
  "EnumeratePortsConnectionInfo silent_port_hub 2 Map.empty = Inr silent_port_hub_connections \<and>
   1 \<le> unat (2 :: 32 word) \<and> unat (2 :: 32 word) \<le> 255 \<and>
   dom silent_port_hub_connections =
     {p. 1 \<le> p \<and> p \<le> unat (2 :: 32 word) \<and>
         (succeeded (GET_NODE_CONNECTION_INFORMATION_EX silent_port_hub (of_nat p)) \<or>
          succeeded (GET_NODE_CONNECTION_INFORMATION silent_port_hub (of_nat p)))} \<and>
   silent_port_hub_connections 1 = Some (the (silent_port_hub_connections 1)) \<and>
   connectionIndex (the (silent_port_hub_connections 1)) = of_nat 1 \<and>
   unat (connectionIndex (the (silent_port_hub_connections 1))) = 1"
proof -
  have "silent_port_hub_connections 1 \<noteq> None" by code_simp
  then have e: "silent_port_hub_connections 1 = Some (the (silent_port_hub_connections 1))"
    by simp
  from EnumeratePortsConnectionInfo_entries [OF silent_port_hub_enumerated]
  show ?thesis using silent_port_hub_enumerated e by blast
qed

text \<open>
  The mapping need not have N entries: on a hub with two ports whose second port
  answers neither query the enumeration completes with one entry.
\<close>

theorem EnumeratePortsConnectionInfo_entries_counterexample:
  "EnumeratePortsConnectionInfo silent_port_hub 2 Map.empty = Inr silent_port_hub_connections \<and>
   silent_port_hub_connections 1 \<noteq> None \<and> silent_port_hub_connections 2 = None"
proof -
  have "silent_port_hub_connections 1 \<noteq> None \<and> silent_port_hub_connections 2 = None"
    by code_simp
  with silent_port_hub_enumerated show ?thesis by simp
qed

text \<open>
  Claim C8.  When the primary extended connection query of a port succeeds, the stored
  speed is the speed that query reports, except when it reports high speed and the V2
  query succeeded with one of its two operating-at-SuperSpeed flags set: then the
  stored speed is SuperSpeed.
\<close>

lemma queryConnectionInfoV2_Some:
  "queryConnectionInfoV2 k p = Some v2 \<longleftrightarrow>
     succeeded (GET_NODE_CONNECTION_INFORMATION_EX_V2 k (of_nat p)) \<and>
     sizeof_USB_NODE_CONNECTION_INFORMATION_EX_V2 \<le>
       bytesReturned (GET_NODE_CONNECTION_INFORMATION_EX_V2 k (of_nat p)) \<and>
     v2 = buffer (GET_NODE_CONNECTION_INFORMATION_EX_V2 k (of_nat p))"
  by (auto simp: queryConnectionInfoV2_def Let_def)

theorem primary_query_speed:
  assumes "EnumeratePortsConnectionInfo k N m0 = Inr m"
      and "1 \<le> p" and "p \<le> unat N"
      and "succeeded (GET_NODE_CONNECTION_INFORMATION_EX k (of_nat p))"
    shows "\<exists>info. m p = Some info \<and>
             speed info =
               (if ex_Speed (buffer (GET_NODE_CONNECTION_INFORMATION_EX k (of_nat p))) = UsbHighSpeed \<and>
                   succeeded (GET_NODE_CONNECTION_INFORMATION_EX_V2 k (of_nat p)) \<and>
                   sizeof_USB_NODE_CONNECTION_INFORMATION_EX_V2 \<le>
                     bytesReturned (GET_NODE_CONNECTION_INFORMATION_EX_V2 k (of_nat p)) \<and>
                   (DeviceIsOperatingAtSuperSpeedOrHigher
                      (buffer (GET_NODE_CONNECTION_INFORMATION_EX_V2 k (of_nat p))) \<or>
                    DeviceIsOperatingAtSuperSpeedPlusOrHigher
                      (buffer (GET_NODE_CONNECTION_INFORMATION_EX_V2 k (of_nat p))))
                then UsbSuperSpeed
                else ex_Speed (buffer (GET_NODE_CONNECTION_INFORMATION_EX k (of_nat p))))"
proof -
  obtain r where r: "processPort k p = Inr r"
    using EnumeratePortsConnectionInfo_no_exception [OF assms(1-3)] by blast
  have mp: "m p = r"
    using EnumeratePortsConnectionInfo_lookup [OF assms(1), of p] assms(2,3) r by simp
  show ?thesis
    unfolding mp processPort_primary [OF r assms(4)]
    by (auto simp: retrieveDriverKeyName_fields populateConnectionInfo_def
          queryConnectionInfoV2_def Let_def)
qed

text \<open>On the sample hub the upgrade happens at port 1, where the V2 request succeeds with
  the flag set; it does not happen when the V2 request of that port fails, although
  the buffer it leaves behind has the flag set.\<close>

theorem primary_query_speed_witness:
  "EnumeratePortsConnectionInfo two_port_hub 2 Map.empty = Inr two_port_hub_connections \<and>
   succeeded (GET_NODE_CONNECTION_INFORMATION_EX two_port_hub 1) \<and>
   ex_Speed (buffer (GET_NODE_CONNECTION_INFORMATION_EX two_port_hub 1)) = UsbHighSpeed \<and>
   succeeded (GET_NODE_CONNECTION_INFORMATION_EX_V2 two_port_hub 1) \<and>
   (\<exists>info. two_port_hub_connections 1 = Some info \<and> speed info = UsbSuperSpeed)"
proof -
  have h2: "(1::nat) \<le> 1" by simp
  have h3: "(1::nat) \<le> unat (2 :: 32 word)" by simp
  have h4: "succeeded (GET_NODE_CONNECTION_INFORMATION_EX two_port_hub (of_nat 1))" by code_simp
  have s: "ex_Speed (buffer (GET_NODE_CONNECTION_INFORMATION_EX two_port_hub (of_nat 1))) = UsbHighSpeed"
    by code_simp
  have v: "succeeded (GET_NODE_CONNECTION_INFORMATION_EX_V2 two_port_hub (of_nat 1)) \<and>
           sizeof_USB_NODE_CONNECTION_INFORMATION_EX_V2 \<le>
             bytesReturned (GET_NODE_CONNECTION_INFORMATION_EX_V2 two_port_hub (of_nat 1)) \<and>
           DeviceIsOperatingAtSuperSpeedOrHigher
             (buffer (GET_NODE_CONNECTION_INFORMATION_EX_V2 two_port_hub (of_nat 1)))"
    by code_simp
  from primary_query_speed [OF two_port_hub_enumerated h2 h3 h4]
  show ?thesis using two_port_hub_enumerated h4 s v by simp
qed

lemma failed_v2_request_keeps_speed:
  "EnumeratePortsConnectionInfo v2_rejected_hub 2 Map.empty = Inr v2_rejected_hub_connections \<and>
   \<not> succeeded (GET_NODE_CONNECTION_INFORMATION_EX_V2 v2_rejected_hub 1) \<and>
   DeviceIsOperatingAtSuperSpeedOrHigher
     (buffer (GET_NODE_CONNECTION_INFORMATION_EX_V2 v2_rejected_hub 1)) \<and>
   map_option speed (v2_rejected_hub_connections 1) = Some UsbHighSpeed"
proof -
  have "isl (EnumeratePortsConnectionInfo v2_rejected_hub 2 Map.empty) = False" by code_simp
  then have e: "EnumeratePortsConnectionInfo v2_rejected_hub 2 Map.empty =
                  Inr v2_rejected_hub_connections"
    by (cases "EnumeratePortsConnectionInfo v2_rejected_hub 2 Map.empty")
       (simp_all add: v2_rejected_hub_connections_def)
  have "\<not> succeeded (GET_NODE_CONNECTION_INFORMATION_EX_V2 v2_rejected_hub 1) \<and>
   DeviceIsOperatingAtSuperSpeedOrHigher
     (buffer (GET_NODE_CONNECTION_INFORMATION_EX_V2 v2_rejected_hub 1)) \<and>
   map_option speed (v2_rejected_hub_connections 1) = Some UsbHighSpeed"
    by code_simp
  with e show ?thesis by simp
qed

text \<open>
  Claim C10.  When the primary query of a port fails and the legacy query succeeds, the
  stored speed is low speed if the legacy record's \<open>LowSpeed\<close> flag is set and full
  speed otherwise, and so never high speed or SuperSpeed.
\<close>

theorem legacy_query_speed:
  assumes "EnumeratePortsConnectionInfo k N m0 = Inr m"
      and "1 \<le> p" and "p \<le> unat N"
      and "\<not> succeeded (GET_NODE_CONNECTION_INFORMATION_EX k (of_nat p))"
      and "succeeded (GET_NODE_CONNECTION_INFORMATION k (of_nat p))"
    shows "\<exists>info. m p = Some info \<and>
             speed info =
               (if ci_LowSpeed (buffer (GET_NODE_CONNECTION_INFORMATION k (of_nat p))) \<noteq> 0
                then UsbLowSpeed else UsbFullSpeed) \<and>
             speed info \<noteq> UsbHighSpeed \<and> speed info \<noteq> UsbSuperSpeed"
proof -
  obtain r where r: "processPort k p = Inr r"
    using EnumeratePortsConnectionInfo_no_exception [OF assms(1-3)] by blast
  have mp: "m p = r"
    using EnumeratePortsConnectionInfo_lookup [OF assms(1), of p] assms(2,3) r by simp
  have a: "alloc_connection k p"
  proof (rule ccontr)
    assume "\<not> alloc_connection k p"
    then have "queryLegacyConnectionInfo k p = Inl (ResultException E_OUTOFMEMORY)"
      by (simp add: queryLegacyConnectionInfo_def)
    with r assms(4) show False
      by (simp add: processPort_def Let_def split: if_splits)
  qed
  show ?thesis
    unfolding mp processPort_fallback [OF r assms(4)]
    using a assms(5)
    by (simp add: queryLegacyConnectionInfo_def Let_def retrieveDriverKeyName_fields
          UsbLowSpeed_def UsbFullSpeed_def UsbHighSpeed_def UsbSuperSpeed_def)
qed

theorem legacy_query_speed_witness:
  "EnumeratePortsConnectionInfo two_port_hub 2 Map.empty = Inr two_port_hub_connections \<and>
   \<not> succeeded (GET_NODE_CONNECTION_INFORMATION_EX two_port_hub 2) \<and>
   succeeded (GET_NODE_CONNECTION_INFORMATION two_port_hub 2) \<and>
   (\<exists>info. two_port_hub_connections 2 = Some info \<and> speed info = UsbFullSpeed \<and>
           speed info \<noteq> UsbHighSpeed \<and> speed info \<noteq> UsbSuperSpeed)"
proof -
  have h2: "(1::nat) \<le> 2" by simp
  have h3: "(2::nat) \<le> unat (2 :: 32 word)" by simp
  have h4: "\<not> succeeded (GET_NODE_CONNECTION_INFORMATION_EX two_port_hub (of_nat 2))" by code_simp
  have h5: "succeeded (GET_NODE_CONNECTION_INFORMATION two_port_hub (of_nat 2))" by code_simp
  have s: "ci_LowSpeed (buffer (GET_NODE_CONNECTION_INFORMATION two_port_hub (of_nat 2))) = 0"
    by code_simp
  from legacy_query_speed [OF two_port_hub_enumerated h2 h3 h4 h5]
  show ?thesis using two_port_hub_enumerated h4 h5 s by simp
qed

text \<open>
  Claim C9, as amended.  In every entry of the mapping, connected or not, the stored
  number of open pipes is the length of the stored pipe list, and the stored device
  address is the one the kernel reported in the query that filled the entry.  The
  transport copies the address; it neither checks the range 1 to 127 nor that the
  addresses of one hub differ.
\<close>

theorem connection_entry_pipes_and_address:
  assumes "EnumeratePortsConnectionInfo k N m0 = Inr m"
      and "m p = Some info"
    shows "unat (numberOfOpenPipes info) = length (pipeList info) \<and>
           deviceAddress info =
             (if succeeded (GET_NODE_CONNECTION_INFORMATION_EX k (of_nat p))
              then ex_DeviceAddress (buffer (GET_NODE_CONNECTION_INFORMATION_EX k (of_nat p)))
              else ci_DeviceAddress (buffer (GET_NODE_CONNECTION_INFORMATION k (of_nat p))))"
proof -
  note lk = EnumeratePortsConnectionInfo_lookup [OF assms(1), of p]
  have in_range: "1 \<le> p \<and> p \<le> unat N"
    using assms(2) lk by (auto split: if_splits)
  then obtain r where r: "processPort k p = Inr r"
    using EnumeratePortsConnectionInfo_no_exception [OF assms(1)] by blast
  have "processPort k p = Inr (Some info)" using lk in_range r assms(2) by simp
  then show ?thesis by (rule processPort_pipes)
qed

theorem connection_entry_pipes_and_address_witness:
  "EnumeratePortsConnectionInfo two_port_hub 2 Map.empty = Inr two_port_hub_connections \<and>
   two_port_hub_connections 1 = Some (the (two_port_hub_connections 1)) \<and>
   unat (numberOfOpenPipes (the (two_port_hub_connections 1))) = 1 \<and>
   length (pipeList (the (two_port_hub_connections 1))) = 1 \<and>
   deviceAddress (the (two_port_hub_connections 1)) = 0"
proof -
  have "two_port_hub_connections 1 \<noteq> None" by code_simp
  then have h2: "two_port_hub_connections 1 = Some (the (two_port_hub_connections 1))" by simp
  have n: "unat (numberOfOpenPipes (the (two_port_hub_connections 1))) = 1" by code_simp
  have s: "succeeded (GET_NODE_CONNECTION_INFORMATION_EX two_port_hub (of_nat 1))" by code_simp
  have a: "ex_DeviceAddress (buffer (GET_NODE_CONNECTION_INFORMATION_EX two_port_hub (of_nat 1))) = 0"
    by code_simp
  from connection_entry_pipes_and_address [OF two_port_hub_enumerated h2]
  show ?thesis using two_port_hub_enumerated h2 n s a by simp
qed

text \<open>
  Two connected entries of one hub can both carry the device address 0 that the kernel
  reported for them.
\<close>

theorem connected_device_address_counterexample:
  "EnumeratePortsConnectionInfo two_port_hub 2 Map.empty = Inr two_port_hub_connections \<and>
   map_option connectionStatus (two_port_hub_connections 1) = Some DeviceConnected \<and>
   map_option connectionStatus (two_port_hub_connections 2) = Some DeviceConnected \<and>
   map_option deviceAddress (two_port_hub_connections 1) = Some 0 \<and>
   map_option deviceAddress (two_port_hub_connections 2) = Some 0"
proof -
  have "map_option connectionStatus (two_port_hub_connections 1) = Some DeviceConnected \<and>
   map_option connectionStatus (two_port_hub_connections 2) = Some DeviceConnected \<and>
   map_option deviceAddress (two_port_hub_connections 1) = Some 0 \<and>
   map_option deviceAddress (two_port_hub_connections 2) = Some 0"
    by code_simp
  with two_port_hub_enumerated show ?thesis by simp
qed

section \<open>Properties of the single-request operations\<close>

text \<open>
  Claim C3, as amended.  When the kernel query is unsupported (the call fails or
  returns fewer bytes than the structure), \<open>GetUsbHubNodeInformationEx\<close> returns
  normally with the support flag false and the highest port number 0, whereas
  \<open>GetUsbHubNodeCapabilitiesEx\<close> raises \<open>wil::ResultException\<close> built from the last
  error code, as its declaration documents.
\<close>

theorem extended_hub_queries_unsupported:
  "(\<not> succeeded (GET_HUB_INFORMATION_EX k) \<or>
      bytesReturned (GET_HUB_INFORMATION_EX k) < sizeof_USB_HUB_INFORMATION_EX \<longrightarrow>
    GetUsbHubNodeInformationEx k = Inr \<lparr>highestPortNumber = 0, isHubInfoExSupport = False\<rparr>) \<and>
   (\<not> succeeded (GET_HUB_CAPABILITIES_EX k) \<or>
      bytesReturned (GET_HUB_CAPABILITIES_EX k) < sizeof_USB_HUB_CAPABILITIES_EX \<longrightarrow>
    GetUsbHubNodeCapabilitiesEx k = Inl (ResultException (lastError (GET_HUB_CAPABILITIES_EX k))))"
  by (auto simp: GetUsbHubNodeInformationEx_def GetUsbHubNodeCapabilitiesEx_def Let_def)

theorem extended_hub_queries_unsupported_witness:
  "\<not> succeeded (GET_HUB_INFORMATION_EX two_port_hub) \<and>
   GetUsbHubNodeInformationEx two_port_hub = Inr \<lparr>highestPortNumber = 0, isHubInfoExSupport = False\<rparr> \<and>
   \<not> succeeded (GET_HUB_CAPABILITIES_EX two_port_hub) \<and>
   GetUsbHubNodeCapabilitiesEx two_port_hub = Inl (ResultException 1)"
proof -
  have h1: "\<not> succeeded (GET_HUB_INFORMATION_EX two_port_hub)" by code_simp
  have h2: "\<not> succeeded (GET_HUB_CAPABILITIES_EX two_port_hub)" by code_simp
  have e: "lastError (GET_HUB_CAPABILITIES_EX two_port_hub) = 1" by code_simp
  from extended_hub_queries_unsupported [of two_port_hub]
  show ?thesis using h1 h2 e by simp
qed

text \<open>\<open>GetUsbHubNodeCapabilitiesEx\<close> does not return normally on an unsupported query.\<close>

theorem GetUsbHubNodeCapabilitiesEx_unsupported_counterexample:
  "\<not> succeeded (GET_HUB_CAPABILITIES_EX two_port_hub) \<and>
   GetUsbHubNodeCapabilitiesEx two_port_hub = Inl (ResultException 1)"
  by code_simp





section \<open>Properties of the hub-tree walk\<close>

text \<open>An exception in the iteration for one port ends the loop over the ports.\<close>

lemma processPorts_failure:
  assumes "processPorts recurse w allDevices before st0 = Some (Inr st)"
      and "processConnectedPort recurse w allDevices entry st = Some (Inl thrown)"
    shows "processPorts recurse w allDevices (before @ entry # after) st0 = Some (Inl thrown)"
  using assms
proof (induction before arbitrary: st0)
  case Nil
  then show ?case by simp
next
  case (Cons a before)
  from Cons.prems(1) obtain st1 where
    a: "processConnectedPort recurse w allDevices a st0 = Some (Inr st1)" and
    b: "processPorts recurse w allDevices before st1 = Some (Inr st)"
    by (auto split: option.splits sum.splits)
  from Cons.IH [OF b Cons.prems(2)] a show ?case by simp
qed

text \<open>A child hub whose enumeration throws makes the iteration for its port throw.\<close>

lemma child_hub_failure:
  assumes "connectionStatus (snd entry) \<noteq> NoDeviceConnected"
      and "snd (matchDevices (BuildVidPidPattern (idVendor (deviceDescriptor (snd entry)))
                   (idProduct (deviceDescriptor (snd entry))))
                 (driverKeyName (snd entry)) allDevices ([], None)) = Some device"
      and "deviceIsHub (snd entry) \<noteq> 0"
      and "GetDevicePath device = Inr path"
      and "recurse path (devicesList st) = Some (Inl thrown)"
    shows "processConnectedPort recurse w allDevices entry st = Some (Inl thrown)"
proof -
  obtain guids where md:
    "matchDevices (BuildVidPidPattern (idVendor (deviceDescriptor (snd entry)))
                   (idProduct (deviceDescriptor (snd entry))))
                 (driverKeyName (snd entry)) allDevices ([], None) = (guids, Some device)"
    using assms(2) by (metis prod.collapse)
  show ?thesis
    using assms(1,3,4,5) by (simp add: processConnectedPort_def Let_def md)
qed

lemma EnumeratePortsFromRootHub_open_failure:
  assumes "UsbHub_new w name = Inl e"
  shows "EnumeratePortsFromRootHub (Suc depth) w allDevices name devs = Some (Inl (e, devs))"
  using assms by (simp add: EnumeratePortsFromRootHub_body_def)

text \<open>
  No \<open>try\<close> block stands between the constructor of a child hub and the caller of the
  enumeration: when the ports before a hub port have been processed and the hub on it
  cannot be opened, the call for the parent hub throws the constructor's exception,
  whatever ports follow.
\<close>

lemma unopenable_child_hub_aborts:
  assumes "UsbHub_new w name = Inr hub0"
      and "PopulateInfo hub0 = Inr hub"
      and "GetPortConnectionInfo hub = before @ entry # after"
      and "processPorts (EnumeratePortsFromRootHub (Suc depth) w allDevices) w allDevices before
             (new_hub_pass hub devs) = Some (Inr st)"
      and "connectionStatus (snd entry) \<noteq> NoDeviceConnected"
      and "snd (matchDevices (BuildVidPidPattern (idVendor (deviceDescriptor (snd entry)))
                   (idProduct (deviceDescriptor (snd entry))))
                 (driverKeyName (snd entry)) allDevices ([], None)) = Some device"
      and "deviceIsHub (snd entry) \<noteq> 0"
      and "GetDevicePath device = Inr path"
      and "UsbHub_new w path = Inl e"
    shows "EnumeratePortsFromRootHub (Suc (Suc depth)) w allDevices name devs =
             Some (Inl (e, devicesList st))"
proof -
  let ?R = "EnumeratePortsFromRootHub (Suc depth) w allDevices"
  have "?R path (devicesList st) = Some (Inl (e, devicesList st))"
    by (rule EnumeratePortsFromRootHub_open_failure [OF assms(9)])
  then have "processConnectedPort ?R w allDevices entry st = Some (Inl (e, devicesList st))"
    by (rule child_hub_failure [OF assms(5-8)])
  then have "processPorts ?R w allDevices (GetPortConnectionInfo hub) (new_hub_pass hub devs) =
               Some (Inl (e, devicesList st))"
    unfolding assms(3) by (rule processPorts_failure [OF assms(4)])
  then show ?thesis
    by (simp add: EnumeratePortsFromRootHub_body_def assms(1,2))
qed

text \<open>
  A descriptor request that fails is not an exception: \<open>GetConfigDescriptor\<close> returns
  \<open>nullptr\<close>, \<open>FillConfigDescriptor\<close> leaves the hub as it is, and the enumeration goes
  on.  On the sample root hub with a flash drive that answers no descriptor request
  the enumeration returns, with no record for the drive.
\<close>

lemma FillConfigDescriptor_no_descriptor:
  assumes "GetConfigDescriptor (pDeviceCommunication hub) ConnectionIndex 0 = Inr None"
  shows "FillConfigDescriptor hub UsbDeviceDescriptor ConnectionIndex DescriptorIndex =
           Some (Inr hub)"
  using assms by (simp add: FillConfigDescriptor_def)

lemma silent_drive_enumeration:
  "EnumerateUsbDevices 2 world_silent_drive [] = Some (Inr [])"
  by code_simp

text \<open>
  Claim C2.  The claim does not hold of the code.  On the sample topology, a root hub
  with an external hub on port 1 and a flash drive on port 2, the enumeration lists
  the flash drive when the external hub can be opened.  When it cannot, the exception
  of the hub's constructor leaves \<open>EnumeratePortsFromRootHub\<close> and
  \<open>EnumerateUsbDevices\<close>, port 2 is never processed and the device list stays empty.
\<close>

theorem unreachable_child_hub_aborts_enumeration:
  "EnumerateUsbDevices 2 world_child_unreachable [] = Some (Inl (ResultException 5, [])) \<and>
   map res_product
     (case EnumerateUsbDevices 2 world_child_reachable [] of
        Some (Inr devs) \<Rightarrow> devs | Some (Inl thrown) \<Rightarrow> [] | None \<Rightarrow> []) =
     [L ''DataTraveler 3.0'']"
  by code_simp

end
